theory Spec2Isabelle
  imports Complex_Main "HOL-Library.Word"
begin

section \<open>Common types\<close>

text \<open>
  A failed \<^verbatim>\<open>BB_ASSERT\<close> ends the run; the model returns it as an error value.
  The other errors stand for behaviour the C++ leaves undefined (integer division by
  zero, reading outside a vector or a buffer).
\<close>

datatype error = AssertFailed | DivByZero | OutOfRange

definition bind_res :: "error + 'a \<Rightarrow> ('a \<Rightarrow> error + 'b) \<Rightarrow> error + 'b" where
  "bind_res r f = (case r of Inl e \<Rightarrow> Inl e | Inr v \<Rightarrow> f v)"

section \<open>Sequential (Sequential.h)\<close>

text \<open>
  A child layer is an object behind a \<^verbatim>\<open>shared_ptr<Layer>\<close>. Its class is not
  fixed, so the model keeps the child's state in a type variable and takes the four
  virtual methods that \<^verbatim>\<open>Sequential\<close> calls as a record of functions. A method that
  mutates the child returns the new child.
\<close>

record ('l, 'b, 'v) layer_ops =
  Forward_m :: "'l \<Rightarrow> 'b \<Rightarrow> bool \<Rightarrow> error + ('b \<times> 'l)"
  Backward_m :: "'l \<Rightarrow> 'b \<Rightarrow> error + ('b \<times> 'l)"
  GetParameters_m :: "'l \<Rightarrow> 'v list"
  GetGradients_m :: "'l \<Rightarrow> 'v list"

text \<open>
  \<^verbatim>\<open>Variables::PushBack(Variables)\<close> appends the entries of its argument; the
  loops of \<^verbatim>\<open>GetParameters\<close> and \<^verbatim>\<open>GetGradients\<close> carry the local aggregate.
\<close>

fun Sequential_GetParameters_loop ::
  "('l, 'b, 'v) layer_ops \<Rightarrow> 'v list \<Rightarrow> 'l list \<Rightarrow> 'v list" where
  "Sequential_GetParameters_loop ops parameters [] = parameters"
| "Sequential_GetParameters_loop ops parameters (layer # rest) =
     Sequential_GetParameters_loop ops (parameters @ GetParameters_m ops layer) rest"

definition Sequential_GetParameters :: "('l, 'b, 'v) layer_ops \<Rightarrow> 'l list \<Rightarrow> 'v list" where
  "Sequential_GetParameters ops m_layers = Sequential_GetParameters_loop ops [] m_layers"

fun Sequential_GetGradients_loop ::
  "('l, 'b, 'v) layer_ops \<Rightarrow> 'v list \<Rightarrow> 'l list \<Rightarrow> 'v list" where
  "Sequential_GetGradients_loop ops gradients [] = gradients"
| "Sequential_GetGradients_loop ops gradients (layer # rest) =
     Sequential_GetGradients_loop ops (gradients @ GetGradients_m ops layer) rest"

definition Sequential_GetGradients :: "('l, 'b, 'v) layer_ops \<Rightarrow> 'l list \<Rightarrow> 'v list" where
  "Sequential_GetGradients ops m_layers = Sequential_GetGradients_loop ops [] m_layers"

text \<open>
  \<^verbatim>\<open>Forward\<close>: \<^verbatim>\<open>for (auto layer : m_layers) x = layer->Forward(x, train);\<close>.
  The second argument collects the children already visited (in their new state).
\<close>

fun Sequential_Forward_loop ::
  "('l, 'b, 'v) layer_ops \<Rightarrow> 'l list \<Rightarrow> 'l list \<Rightarrow> 'b \<Rightarrow> bool \<Rightarrow> error + ('b \<times> 'l list)" where
  "Sequential_Forward_loop ops visited [] x train = Inr (x, visited)"
| "Sequential_Forward_loop ops visited (layer # rest) x train =
     (case Forward_m ops layer x train of
        Inl e \<Rightarrow> Inl e
      | Inr (y, layer') \<Rightarrow> Sequential_Forward_loop ops (visited @ [layer']) rest y train)"

definition Sequential_Forward ::
  "('l, 'b, 'v) layer_ops \<Rightarrow> 'l list \<Rightarrow> 'b \<Rightarrow> bool \<Rightarrow> error + ('b \<times> 'l list)" where
  "Sequential_Forward ops m_layers x train = Sequential_Forward_loop ops [] m_layers x train"

text \<open>
  \<^verbatim>\<open>Backward\<close> walks \<^verbatim>\<open>m_layers\<close> from \<^verbatim>\<open>rbegin()\<close> to \<^verbatim>\<open>rend()\<close>: the loop
  takes the reversed list, and puts each visited child back in front of the ones
  visited before it.
\<close>

fun Sequential_Backward_loop ::
  "('l, 'b, 'v) layer_ops \<Rightarrow> 'l list \<Rightarrow> 'l list \<Rightarrow> 'b \<Rightarrow> error + ('b \<times> 'l list)" where
  "Sequential_Backward_loop ops visited [] dy = Inr (dy, visited)"
| "Sequential_Backward_loop ops visited (layer # rest) dy =
     (case Backward_m ops layer dy of
        Inl e \<Rightarrow> Inl e
      | Inr (dx, layer') \<Rightarrow> Sequential_Backward_loop ops (layer' # visited) rest dx)"

definition Sequential_Backward ::
  "('l, 'b, 'v) layer_ops \<Rightarrow> 'l list \<Rightarrow> 'b \<Rightarrow> error + ('b \<times> 'l list)" where
  "Sequential_Backward ops m_layers dy = Sequential_Backward_loop ops [] (rev m_layers) dy"

section \<open>SparseLayer (SparseLayer.h)\<close>

subsection \<open>Shapes and the layer's connection table\<close>

text \<open>
  \<^verbatim>\<open>index_t\<close> is a signed 64-bit integer; shapes and node indices are never
  negative here and stay far from its bound, so they are natural numbers.

  Modelled from the spec: \<^verbatim>\<open>GetShapeSize\<close> and \<^verbatim>\<open>GetShapeIndex\<close> of
  \<^verbatim>\<open>bb/Utility.h\<close>, which is not among the sources. The flattened node count of a
  shape is the product of its extents, and an index tuple is flattened with the first
  axis running fastest: the layout that the decoding \<^verbatim>\<open>iy = r / input_shape[0]\<close>,
  \<^verbatim>\<open>ix = r % input_shape[0]\<close> of the depthwise strategy relies on.
\<close>

fun GetShapeSize :: "nat list \<Rightarrow> nat" where
  "GetShapeSize [] = 1"
| "GetShapeSize (n # shape) = n * GetShapeSize shape"

fun GetShapeIndex_loop :: "nat \<Rightarrow> nat \<Rightarrow> nat list \<Rightarrow> nat list \<Rightarrow> nat" where
  "GetShapeIndex_loop stride index (i # indices) (n # shape) =
     GetShapeIndex_loop (stride * n) (index + stride * i) indices shape"
| "GetShapeIndex_loop stride index indices shape = index"

definition GetShapeIndex :: "nat list \<Rightarrow> nat list \<Rightarrow> nat" where
  "GetShapeIndex indices shape = GetShapeIndex_loop 1 0 indices shape"

text \<open>
  \<^verbatim>\<open>GetNodeInputSize\<close>, \<^verbatim>\<open>SetNodeInput\<close> and \<^verbatim>\<open>GetNodeInput\<close> are pure
  virtual: the derived layer owns the storage. The model keeps what they read and
  write: the fan-in of every output node and the entry of every (node, slot) pair.
\<close>

record SparseLayer =
  m_input_shape :: "nat list"
  m_output_shape :: "nat list"
  m_node_input_size :: "nat \<Rightarrow> nat"
  m_node_input :: "nat \<Rightarrow> nat \<Rightarrow> nat"

definition GetInputShape :: "SparseLayer \<Rightarrow> nat list" where
  "GetInputShape L = m_input_shape L"

definition GetOutputShape :: "SparseLayer \<Rightarrow> nat list" where
  "GetOutputShape L = m_output_shape L"

definition GetNodeInputSize :: "SparseLayer \<Rightarrow> nat \<Rightarrow> nat" where
  "GetNodeInputSize L node = m_node_input_size L node"

definition GetNodeInput :: "SparseLayer \<Rightarrow> nat \<Rightarrow> nat \<Rightarrow> nat" where
  "GetNodeInput L node input_index = m_node_input L node input_index"

definition SetNodeInput :: "SparseLayer \<Rightarrow> nat \<Rightarrow> nat \<Rightarrow> nat \<Rightarrow> SparseLayer" where
  "SetNodeInput L node input_index input_node =
     L\<lparr>m_node_input := (m_node_input L)(node := (m_node_input L node)(input_index := input_node))\<rparr>"

text \<open>The input-index list of one output node, and the table of all of them.\<close>

definition node_inputs :: "SparseLayer \<Rightarrow> nat \<Rightarrow> nat list" where
  "node_inputs L node = map (GetNodeInput L node) [0..<GetNodeInputSize L node]"

definition connection_table :: "SparseLayer \<Rightarrow> nat list list" where
  "connection_table L = map (node_inputs L) [0..<GetShapeSize (GetOutputShape L)]"

subsection \<open>What the generator takes from outside\<close>

text \<open>
  \<^verbatim>\<open>std::mt19937_64\<close>, \<^verbatim>\<open>std::normal_distribution\<close>, \<^verbatim>\<open>ShuffleSet\<close>
  (\<^verbatim>\<open>bb/ShuffleSet.h\<close>), \<^verbatim>\<open>RegurerlizeIndices\<close> and \<^verbatim>\<open>GetNextIndices\<close>
  (\<^verbatim>\<open>bb/Utility.h\<close>) are not among the sources. They are parameters of the model,
  each a function of an explicit generator state:
  \<^item> \<open>mt_seed\<close>, \<open>mt_next\<close>: \<^verbatim>\<open>std::mt19937_64 mt(seed)\<close> and \<^verbatim>\<open>mt()\<close>;
  \<^item> \<open>ss_new size seed\<close>: \<^verbatim>\<open>ShuffleSet<index_t> ss(size, seed)\<close>;
    \<open>ss_GetRandomSet ss n\<close>: \<^verbatim>\<open>ss.GetRandomSet(n)\<close>, the set drawn and the new state;
  \<^item> \<open>gauss_sample\<close>: one pass of lines 140-144, that is one normal draw per axis
    around the reference position of \<open>output_index\<close>, \<^verbatim>\<open>RegurerlizeIndices\<close> and
    \<^verbatim>\<open>GetShapeIndex\<close>; it returns the candidate input node and the new generator
    state (the floating-point arithmetic stays inside it);
  \<^item> \<open>GetNextIndices indices shape\<close>: the flag returned and the index tuple left in
    \<^verbatim>\<open>indices\<close>.
\<close>

record ('mt, 'ss) random_ops =
  mt_seed :: "64 word \<Rightarrow> 'mt"
  mt_next :: "'mt \<Rightarrow> 64 word \<times> 'mt"
  ss_new :: "nat \<Rightarrow> 64 word \<Rightarrow> 'ss"
  ss_GetRandomSet :: "'ss \<Rightarrow> nat \<Rightarrow> nat list \<times> 'ss"
  gauss_sample :: "'mt \<Rightarrow> nat list \<Rightarrow> nat list \<Rightarrow> nat list \<Rightarrow> nat \<times> 'mt"
  GetNextIndices :: "nat list \<Rightarrow> nat list \<Rightarrow> bool \<times> nat list"

text \<open>
  Modelled from the spec: \<^verbatim>\<open>SplitString\<close> of \<^verbatim>\<open>bb/Utility.h\<close>, which is not among
  the sources. The strategy is the first token of the connection string; tokens are
  separated by blanks.
\<close>

fun SplitString_loop :: "string \<Rightarrow> string \<Rightarrow> string list" where
  "SplitString_loop word [] = (if word = [] then [] else [word])"
| "SplitString_loop word (c # cs) =
     (if c = CHR '' '' then
        (if word = [] then SplitString_loop [] cs else word # SplitString_loop [] cs)
      else SplitString_loop (word @ [c]) cs)"

definition SplitString :: "string \<Rightarrow> string list" where
  "SplitString text = SplitString_loop [] text"

subsection \<open>Loops\<close>

text \<open>
  A counted \<^verbatim>\<open>for\<close> loop over a loop state: the body runs once per value, in order,
  and a failed assertion or undefined operation in the body ends the run.
\<close>

fun for_each :: "'a list \<Rightarrow> ('a \<Rightarrow> 's \<Rightarrow> error + 's) \<Rightarrow> 's \<Rightarrow> error + 's" where
  "for_each [] body s = Inr s"
| "for_each (x # xs) body s = bind_res (body x s) (for_each xs body)"

text \<open>\<^verbatim>\<open>random_set[i]\<close>: reading past the end of the vector is undefined in C++.\<close>

definition at_index :: "nat list \<Rightarrow> nat \<Rightarrow> error + nat" where
  "at_index random_set i = (if i < length random_set then Inr (random_set ! i) else Inl OutOfRange)"

subsection \<open>The strategies of InitializeNodeInput\<close>

text \<open>
  The innermost loop of pointwise and depthwise,
  \<^verbatim>\<open>for (i = 0; i < input_size; ++i) SetNodeInput(node, i, f(random_set[i]))\<close>,
  where \<open>f\<close> turns the drawn index into an input node and may fail.
\<close>

definition connect_inputs ::
  "nat \<Rightarrow> nat \<Rightarrow> (nat \<Rightarrow> error + nat) \<Rightarrow> nat list \<Rightarrow> SparseLayer \<Rightarrow> error + SparseLayer" where
  "connect_inputs node input_size f random_set L =
     for_each [0..<input_size] (\<lambda>i L3.
       bind_res (bind_res (at_index random_set i) f) (\<lambda>input_node.
         Inr (SetNodeInput L3 node i input_node)))
       L"

text \<open>
  Lines 61-82: pointwise. \<open>pointwise_channel\<close> is the body of the loop over \<open>c\<close>
  (lines 72-77), \<open>pointwise_column\<close> the body of the loop over \<open>x\<close> (lines 69-78).
\<close>

definition pointwise_channel ::
  "('mt, 'ss) random_ops \<Rightarrow> nat list \<Rightarrow> nat list \<Rightarrow> nat \<Rightarrow> nat \<Rightarrow> nat
     \<Rightarrow> 'ss \<times> SparseLayer \<Rightarrow> error + ('ss \<times> SparseLayer)" where
  "pointwise_channel ops input_shape output_shape y x c =
     (\<lambda>(ss, L2).
        let node = GetShapeIndex [x, y, c] output_shape;
            input_size = GetNodeInputSize L2 node;
            (random_set, ss') = ss_GetRandomSet ops ss input_size
        in bind_res
             (connect_inputs node input_size
                (\<lambda>ch. Inr (GetShapeIndex [x, y, ch] input_shape)) random_set L2)
             (\<lambda>L3. Inr (ss', L3)))"

definition pointwise_column ::
  "('mt, 'ss) random_ops \<Rightarrow> nat list \<Rightarrow> nat list \<Rightarrow> nat \<Rightarrow> nat
     \<Rightarrow> 'mt \<times> SparseLayer \<Rightarrow> error + ('mt \<times> SparseLayer)" where
  "pointwise_column ops input_shape output_shape y x =
     (\<lambda>(mt, L1).
        let (r, mt') = mt_next ops mt;
            ss = ss_new ops (input_shape ! 2) r
        in bind_res
             (for_each [0..<output_shape ! 2]
                (pointwise_channel ops input_shape output_shape y x) (ss, L1))
             (\<lambda>(ss', L2). Inr (mt', L2)))"

definition pointwise_connect ::
  "('mt, 'ss) random_ops \<Rightarrow> 64 word \<Rightarrow> SparseLayer \<Rightarrow> error + SparseLayer" where
  "pointwise_connect ops seed L =
     (let input_shape = GetInputShape L; output_shape = GetOutputShape L in
      if length input_shape \<noteq> 3 then Inl AssertFailed
      else if length output_shape \<noteq> 3 then Inl AssertFailed
      else if input_shape ! 0 \<noteq> output_shape ! 0 then Inl AssertFailed
      else if input_shape ! 1 \<noteq> output_shape ! 1 then Inl AssertFailed
      else
        bind_res
          (for_each [0..<output_shape ! 1] (\<lambda>y.
             for_each [0..<output_shape ! 0] (pointwise_column ops input_shape output_shape y))
             (mt_seed ops seed, L))
          (\<lambda>(mt, L'). Inr L'))"

text \<open>
  Lines 84-112: depthwise. \<^verbatim>\<open>random_set[i] / input_shape[0]\<close> and
  \<^verbatim>\<open>% input_shape[0]\<close> are undefined for a zero extent. \<open>depthwise_input\<close> is
  lines 98-105 (the decoding and the two assertions), \<open>depthwise_position\<close> the body of
  the loop over \<open>x\<close> (lines 94-107), \<open>depthwise_channel\<close> the body of the loop over
  \<open>c\<close> (lines 90-109).
\<close>

definition depthwise_input :: "nat list \<Rightarrow> nat list \<Rightarrow> nat \<Rightarrow> nat \<Rightarrow> nat \<Rightarrow> nat \<Rightarrow> error + nat" where
  "depthwise_input input_shape output_shape c y x r =
     (if input_shape ! 0 = 0 then Inl DivByZero
      else
        let iy = r div input_shape ! 0;
            ix = r mod input_shape ! 0;
            output_node = GetShapeIndex [x, y, c] output_shape;
            input_node = GetShapeIndex [ix, iy, c] input_shape
        in if \<not> output_node < GetShapeSize output_shape then Inl AssertFailed
           else if \<not> input_node < GetShapeSize input_shape then Inl AssertFailed
           else Inr input_node)"

definition depthwise_position ::
  "('mt, 'ss) random_ops \<Rightarrow> nat list \<Rightarrow> nat list \<Rightarrow> nat \<Rightarrow> nat \<Rightarrow> nat
     \<Rightarrow> 'ss \<times> SparseLayer \<Rightarrow> error + ('ss \<times> SparseLayer)" where
  "depthwise_position ops input_shape output_shape c y x =
     (\<lambda>(ss, L2).
        let input_size = GetNodeInputSize L2 (GetShapeIndex [x, y, c] output_shape);
            (random_set, ss') = ss_GetRandomSet ops ss input_size
        in bind_res
             (connect_inputs (GetShapeIndex [x, y, c] output_shape) input_size
                (depthwise_input input_shape output_shape c y x) random_set L2)
             (\<lambda>L3. Inr (ss', L3)))"

definition depthwise_channel ::
  "('mt, 'ss) random_ops \<Rightarrow> nat list \<Rightarrow> nat list \<Rightarrow> nat
     \<Rightarrow> 'mt \<times> SparseLayer \<Rightarrow> error + ('mt \<times> SparseLayer)" where
  "depthwise_channel ops input_shape output_shape c =
     (\<lambda>(mt, L1).
        let (r, mt') = mt_next ops mt;
            ss = ss_new ops (input_shape ! 0 * input_shape ! 1) r
        in bind_res
             (for_each [0..<output_shape ! 1] (\<lambda>y.
                for_each [0..<output_shape ! 0]
                  (depthwise_position ops input_shape output_shape c y))
                (ss, L1))
             (\<lambda>(ss', L2). Inr (mt', L2)))"

definition depthwise_connect ::
  "('mt, 'ss) random_ops \<Rightarrow> 64 word \<Rightarrow> SparseLayer \<Rightarrow> error + SparseLayer" where
  "depthwise_connect ops seed L =
     (let input_shape = GetInputShape L; output_shape = GetOutputShape L in
      if length input_shape \<noteq> 3 then Inl AssertFailed
      else if length output_shape \<noteq> 3 then Inl AssertFailed
      else if input_shape ! 2 \<noteq> output_shape ! 2 then Inl AssertFailed
      else
        bind_res
          (for_each [0..<output_shape ! 2] (depthwise_channel ops input_shape output_shape)
             (mt_seed ops seed, L))
          (\<lambda>(mt, L'). Inr L'))"

text \<open>
  Lines 114-154: gauss. The inner \<^verbatim>\<open>for ( ; ; )\<close> draws candidates until one is
  not yet in the set \<^verbatim>\<open>s\<close>; nothing bounds the number of draws, and the
  \<^verbatim>\<open>do ... while\<close> runs as long as \<^verbatim>\<open>GetNextIndices\<close> says so. Both loops take
  fuel: \<open>None\<close> means that the fuel did not suffice.
\<close>

fun gauss_retry ::
  "nat \<Rightarrow> ('mt, 'ss) random_ops \<Rightarrow> nat list \<Rightarrow> nat list \<Rightarrow> nat list \<Rightarrow> nat set \<Rightarrow> 'mt
     \<Rightarrow> (nat \<times> 'mt) option" where
  "gauss_retry 0 ops input_shape output_shape output_index s mt = None"
| "gauss_retry (Suc fuel) ops input_shape output_shape output_index s mt =
     (let (input_node, mt') = gauss_sample ops mt input_shape output_shape output_index
      in if input_node \<notin> s then Some (input_node, mt')
         else gauss_retry fuel ops input_shape output_shape output_index s mt')"

fun gauss_inputs ::
  "nat \<Rightarrow> ('mt, 'ss) random_ops \<Rightarrow> nat list \<Rightarrow> nat \<Rightarrow> nat list
     \<Rightarrow> nat set \<times> 'mt \<times> SparseLayer \<Rightarrow> (nat set \<times> 'mt \<times> SparseLayer) option" where
  "gauss_inputs fuel ops output_index output_node [] st = Some st"
| "gauss_inputs fuel ops output_index output_node (i # rest) (s, mt, L) =
     (case gauss_retry fuel ops (GetInputShape L) (GetOutputShape L) output_index s mt of
        None \<Rightarrow> None
      | Some (input_node, mt') \<Rightarrow>
          gauss_inputs fuel ops output_index output_node rest
            (insert input_node s, mt', SetNodeInput L output_node i input_node))"

fun gauss_nodes ::
  "nat \<Rightarrow> nat \<Rightarrow> ('mt, 'ss) random_ops \<Rightarrow> nat list \<Rightarrow> 'mt \<times> SparseLayer
     \<Rightarrow> ('mt \<times> SparseLayer) option" where
  "gauss_nodes 0 fuel ops output_index st = None"
| "gauss_nodes (Suc rounds) fuel ops output_index (mt, L) =
     (let output_node = GetShapeIndex output_index (GetOutputShape L);
          m = GetNodeInputSize L output_node
      in case gauss_inputs fuel ops output_index output_node [0..<m] ({}, mt, L) of
           None \<Rightarrow> None
         | Some (s, mt', L') \<Rightarrow>
             (case GetNextIndices ops output_index (GetOutputShape L') of
                (True, output_index') \<Rightarrow> gauss_nodes rounds fuel ops output_index' (mt', L')
              | (False, output_index') \<Rightarrow> Some (mt', L')))"

definition gauss_connect ::
  "nat \<Rightarrow> ('mt, 'ss) random_ops \<Rightarrow> 64 word \<Rightarrow> SparseLayer \<Rightarrow> SparseLayer option" where
  "gauss_connect fuel ops seed L =
     (let n = length (GetInputShape L)
      in map_option snd (gauss_nodes fuel fuel ops (replicate n 0) (mt_seed ops seed, L)))"

text \<open>Lines 183-194: serial. \<^verbatim>\<open>input_node % input_node_size\<close> is undefined for 0.\<close>

definition serial_connect :: "SparseLayer \<Rightarrow> error + SparseLayer" where
  "serial_connect L =
     (let input_node_size = GetShapeSize (GetInputShape L);
          output_node_size = GetShapeSize (GetOutputShape L)
      in bind_res
           (for_each [0..<output_node_size] (\<lambda>output_node (input_node, L1).
              let m = GetNodeInputSize L1 output_node
              in for_each [0..<m] (\<lambda>i (input_node, L2).
                   if input_node_size = 0 then Inl DivByZero
                   else Inr (input_node + 1,
                             SetNodeInput L2 output_node i (input_node mod input_node_size)))
                   (input_node, L1))
              (0, L))
           (\<lambda>(input_node, L'). Inr L'))"

text \<open>Lines 196-208: random.\<close>

definition random_connect ::
  "('mt, 'ss) random_ops \<Rightarrow> 64 word \<Rightarrow> SparseLayer \<Rightarrow> error + SparseLayer" where
  "random_connect ops seed L =
     (let input_node_size = GetShapeSize (GetInputShape L);
          output_node_size = GetShapeSize (GetOutputShape L);
          ss = ss_new ops input_node_size seed
      in bind_res
           (for_each [0..<output_node_size] (\<lambda>node (ss, L1).
              let input_size = GetNodeInputSize L1 node;
                  (random_set, ss') = ss_GetRandomSet ops ss input_size
              in bind_res
                   (for_each [0..<input_size] (\<lambda>i L2.
                      bind_res (at_index random_set i) (\<lambda>input_node.
                        Inr (SetNodeInput L2 node i input_node)))
                      L1)
                   (\<lambda>L2. Inr (ss', L2)))
              (ss, L))
           (\<lambda>(ss, L'). Inr L'))"

text \<open>
  \<^verbatim>\<open>InitializeNodeInput\<close>: the strategy is chosen by the first token, in the order
  of the source; the last line is \<^verbatim>\<open>BB_ASSERT(0)\<close>. The result is \<open>None\<close> when the
  gauss loops did not return within the fuel.
\<close>

definition InitializeNodeInput ::
  "nat \<Rightarrow> ('mt, 'ss) random_ops \<Rightarrow> 64 word \<Rightarrow> string \<Rightarrow> SparseLayer
     \<Rightarrow> (error + SparseLayer) option" where
  "InitializeNodeInput fuel ops seed connection L =
     (let argv = SplitString connection in
      if length argv > 0 \<and> argv ! 0 = ''pointwise'' then Some (pointwise_connect ops seed L)
      else if length argv > 0 \<and> argv ! 0 = ''depthwise'' then Some (depthwise_connect ops seed L)
      else if length argv > 0 \<and> argv ! 0 = ''gauss'' then map_option Inr (gauss_connect fuel ops seed L)
      else if length argv > 0 \<and> argv ! 0 = ''serial'' then Some (serial_connect L)
      else if length argv = 0 \<or> argv ! 0 = ''random'' then Some (random_connect ops seed L)
      else Some (Inl AssertFailed))"

text \<open>
  The position of the pair (\<open>node\<close>, slot 0) when all (output node, input slot) pairs
  are counted in row-major order: the fan-ins of the nodes before \<open>node\<close> added up.
\<close>

definition serial_offset :: "SparseLayer \<Rightarrow> nat \<Rightarrow> nat" where
  "serial_offset L node = sum_list (map (GetNodeInputSize L) [0..<node])"

section \<open>ReLU (ReLU.h)\<close>

text \<open>
  Modelled from the spec: \<^verbatim>\<open>FrameBuffer\<close> (\<^verbatim>\<open>bb/FrameBuffer.h\<close> is not among the
  sources): an element type tag, a frame count, a node shape and one value per
  (frame, node) pair, here stored node-major as the host path addresses it. The
  default-constructed \<^verbatim>\<open>FrameBuffer()\<close> holds nothing. Values are real numbers;
  rounding and the padding of a frame row to a multiple of eight are not modelled.
  Reading a (frame, node) pair that a buffer does not hold is undefined in the source
  and is the error \<open>OutOfRange\<close> here.
\<close>

datatype DataType = BB_TYPE_BIT | BB_TYPE_FP32 | BB_TYPE_FP64

record FrameBuffer =
  fb_type :: DataType
  fb_frame_size :: nat
  fb_shape :: "nat list"
  fb_data :: "real list list"

definition FrameBuffer_empty :: FrameBuffer where
  "FrameBuffer_empty = \<lparr>fb_type = BB_TYPE_FP32, fb_frame_size = 0, fb_shape = [], fb_data = []\<rparr>"

definition GetNodeSize :: "FrameBuffer \<Rightarrow> nat" where
  "GetNodeSize buf = (if fb_shape buf = [] then 0 else GetShapeSize (fb_shape buf))"

definition buf_Get :: "FrameBuffer \<Rightarrow> nat \<Rightarrow> nat \<Rightarrow> error + real" where
  "buf_Get buf frame node =
     (if node < length (fb_data buf) \<and> frame < length (fb_data buf ! node)
      then Inr (fb_data buf ! node ! frame) else Inl OutOfRange)"

text \<open>One loop that fills a row or a buffer, failing when an element fails.\<close>

fun collect :: "('a \<Rightarrow> error + 'b) \<Rightarrow> 'a list \<Rightarrow> error + 'b list" where
  "collect f [] = Inr []"
| "collect f (x # xs) = bind_res (f x) (\<lambda>y. bind_res (collect f xs) (\<lambda>ys. Inr (y # ys)))"

text \<open>
  \<^verbatim>\<open>ReLU<T>\<close> derives from \<^verbatim>\<open>Binarize<T>\<close> and shares \<^verbatim>\<open>m_x_buf\<close> with it. In
  binary mode Forward and Backward are those of \<^verbatim>\<open>Binarize<T>\<close>, which is not among
  the sources: they are the parameters \<open>Binarize_Forward\<close> and \<open>Binarize_Backward\<close>.
  \<open>T_type\<close> is \<^verbatim>\<open>DataType<T>::type\<close>.
\<close>

record ReLU =
  m_binary_mode :: bool
  m_host_only :: bool
  m_x_buf :: FrameBuffer
  m_y_buf :: FrameBuffer

record Binarize_ops =
  T_type :: DataType
  Binarize_Forward :: "ReLU \<Rightarrow> FrameBuffer \<Rightarrow> bool \<Rightarrow> error + (FrameBuffer \<times> ReLU)"
  Binarize_Backward :: "ReLU \<Rightarrow> FrameBuffer \<Rightarrow> error + (FrameBuffer \<times> ReLU)"

text \<open>
  Forward, host path (lines 100-148): the result buffer takes the type, frame count
  and shape of the input; in training mode both buffers are kept; every element is
  \<open>max x 0\<close>.
\<close>

definition ReLU_Forward ::
  "Binarize_ops \<Rightarrow> ReLU \<Rightarrow> FrameBuffer \<Rightarrow> bool \<Rightarrow> error + (FrameBuffer \<times> ReLU)" where
  "ReLU_Forward ops r x_buf train =
     (if m_binary_mode r then Binarize_Forward ops r x_buf train
      else if fb_type x_buf \<noteq> T_type ops then Inl AssertFailed
      else
        bind_res
          (collect (\<lambda>node.
             collect (\<lambda>frame.
               bind_res (buf_Get x_buf frame node) (\<lambda>in_sig. Inr (max in_sig 0)))
               [0..<fb_frame_size x_buf])
             [0..<GetNodeSize x_buf])
          (\<lambda>y_data.
             let y_buf = \<lparr>fb_type = fb_type x_buf, fb_frame_size = fb_frame_size x_buf,
                          fb_shape = fb_shape x_buf, fb_data = y_data\<rparr>;
                 r' = (if train then r\<lparr>m_x_buf := x_buf, m_y_buf := y_buf\<rparr> else r)
             in Inr (y_buf, r')))"

text \<open>
  Backward, host path (lines 184-261): the kept buffers are taken out of the layer
  and the layer is left with empty ones; the gradient passes where the kept output is
  positive.
\<close>

definition ReLU_Backward ::
  "Binarize_ops \<Rightarrow> ReLU \<Rightarrow> FrameBuffer \<Rightarrow> error + (FrameBuffer \<times> ReLU)" where
  "ReLU_Backward ops r dy_buf =
     (if m_binary_mode r then Binarize_Backward ops r dy_buf
      else if fb_type dy_buf \<noteq> T_type ops then Inl AssertFailed
      else
        let x_buf = m_x_buf r;
            y_buf = m_y_buf r;
            r' = r\<lparr>m_x_buf := FrameBuffer_empty, m_y_buf := FrameBuffer_empty\<rparr>
        in bind_res
             (collect (\<lambda>node.
                collect (\<lambda>frame.
                  bind_res (buf_Get y_buf frame node) (\<lambda>y.
                    bind_res (buf_Get dy_buf frame node) (\<lambda>dy.
                      Inr (if y > 0 then dy else 0))))
                  [0..<fb_frame_size dy_buf])
                [0..<GetNodeSize dy_buf])
             (\<lambda>dx_data.
                Inr (\<lparr>fb_type = fb_type dy_buf, fb_frame_size = fb_frame_size dy_buf,
                        fb_shape = fb_shape dy_buf, fb_data = dx_data\<rparr>, r')))"

text \<open>
  Example values: a float ReLU outside binary mode with nothing kept, and the buffer
  of one frame and one node holding \<open>v\<close>.
\<close>

definition example_Binarize_ops :: Binarize_ops where
  "example_Binarize_ops =
     \<lparr>T_type = BB_TYPE_FP32,
      Binarize_Forward = (\<lambda>r x_buf train. Inr (x_buf, r)),
      Binarize_Backward = (\<lambda>r dy_buf. Inr (dy_buf, r))\<rparr>"

definition example_ReLU :: ReLU where
  "example_ReLU =
     \<lparr>m_binary_mode = False, m_host_only = False,
      m_x_buf = FrameBuffer_empty, m_y_buf = FrameBuffer_empty\<rparr>"

definition example_buf :: "real \<Rightarrow> FrameBuffer" where
  "example_buf v = \<lparr>fb_type = BB_TYPE_FP32, fb_frame_size = 1, fb_shape = [1], fb_data = [[v]]\<rparr>"

section \<open>StochasticLut (StochasticLut.h)\<close>

text \<open>
  The two children are objects of classes that are not among the sources
  (\<^verbatim>\<open>StochasticLut2/4/6\<close>, \<^verbatim>\<open>BatchNormalization\<close>). Their methods are parameters:
  beside the four of \<open>layer_ops\<close>, the single-node evaluation and the two stream
  operations. \<^verbatim>\<open>Save\<close> takes what the stream holds and returns what it holds
  afterwards; \<^verbatim>\<open>Load\<close> takes the bytes not yet read and returns the loaded child
  with the bytes left.
\<close>

record ('l, 'b, 'v) model_ops = "('l, 'b, 'v) layer_ops" +
  ForwardNode_m :: "'l \<Rightarrow> nat \<Rightarrow> real list \<Rightarrow> real list"
  Save_m :: "'l \<Rightarrow> 8 word list \<Rightarrow> 8 word list"
  Load_m :: "'l \<Rightarrow> 8 word list \<Rightarrow> 'l \<times> 8 word list"

record ('lut, 'bn) StochasticLut =
  m_lut :: 'lut
  m_batch_norm :: 'bn
  m_bn_enable :: bool

text \<open>\<^verbatim>\<open>EvalBool\<close> (\<^verbatim>\<open>bb/Utility.h\<close>, not among the sources) is a parameter.\<close>

definition StochasticLut_CommandProc ::
  "(string \<Rightarrow> bool) \<Rightarrow> string list \<Rightarrow> ('lut, 'bn) StochasticLut \<Rightarrow> ('lut, 'bn) StochasticLut" where
  "StochasticLut_CommandProc EvalBool args S =
     (if length args = 2 \<and> args ! 0 = ''batch_normalization''
      then S\<lparr>m_bn_enable := EvalBool (args ! 1)\<rparr> else S)"

definition StochasticLut_GetParameters ::
  "('lut, 'b, 'v) model_ops \<Rightarrow> ('bn, 'b, 'v) model_ops \<Rightarrow> ('lut, 'bn) StochasticLut \<Rightarrow> 'v list" where
  "StochasticLut_GetParameters lut bn S =
     (let parameters = [] @ GetParameters_m lut (m_lut S)
      in if m_bn_enable S then parameters @ GetParameters_m bn (m_batch_norm S) else parameters)"

definition StochasticLut_GetGradients ::
  "('lut, 'b, 'v) model_ops \<Rightarrow> ('bn, 'b, 'v) model_ops \<Rightarrow> ('lut, 'bn) StochasticLut \<Rightarrow> 'v list" where
  "StochasticLut_GetGradients lut bn S =
     (let gradients = [] @ GetGradients_m lut (m_lut S)
      in if m_bn_enable S then gradients @ GetGradients_m bn (m_batch_norm S) else gradients)"

text \<open>
  \<^verbatim>\<open>ForwardNode\<close>: \<open>input_size\<close> is \<^verbatim>\<open>m_lut->GetNodeInputSize(node)\<close>, passed in by
  the caller of the model.
\<close>

definition StochasticLut_ForwardNode ::
  "('lut, 'b, 'v) model_ops \<Rightarrow> ('bn, 'b, 'v) model_ops \<Rightarrow> nat \<Rightarrow> ('lut, 'bn) StochasticLut
     \<Rightarrow> nat \<Rightarrow> real list \<Rightarrow> error + real list" where
  "StochasticLut_ForwardNode lut bn input_size S node x_vec =
     (if input_size \<noteq> length x_vec then Inl AssertFailed
      else
        let x_vec1 = ForwardNode_m lut (m_lut S) node x_vec
        in if m_bn_enable S then Inr (ForwardNode_m bn (m_batch_norm S) node x_vec1)
           else Inr x_vec1)"

definition StochasticLut_Forward ::
  "('lut, 'b, 'v) model_ops \<Rightarrow> ('bn, 'b, 'v) model_ops \<Rightarrow> ('lut, 'bn) StochasticLut
     \<Rightarrow> 'b \<Rightarrow> bool \<Rightarrow> error + ('b \<times> ('lut, 'bn) StochasticLut)" where
  "StochasticLut_Forward lut bn S x train =
     bind_res (Forward_m lut (m_lut S) x train) (\<lambda>(x1, lut').
       if m_bn_enable S then
         bind_res (Forward_m bn (m_batch_norm S) x1 train) (\<lambda>(x2, bn').
           Inr (x2, S\<lparr>m_lut := lut', m_batch_norm := bn'\<rparr>))
       else Inr (x1, S\<lparr>m_lut := lut'\<rparr>))"

definition StochasticLut_Backward ::
  "('lut, 'b, 'v) model_ops \<Rightarrow> ('bn, 'b, 'v) model_ops \<Rightarrow> ('lut, 'bn) StochasticLut
     \<Rightarrow> 'b \<Rightarrow> error + ('b \<times> ('lut, 'bn) StochasticLut)" where
  "StochasticLut_Backward lut bn S dy =
     bind_res
       (if m_bn_enable S then
          bind_res (Backward_m bn (m_batch_norm S) dy) (\<lambda>(dy1, bn').
            Inr (dy1, S\<lparr>m_batch_norm := bn'\<rparr>))
        else Inr (dy, S))
       (\<lambda>(dy1, S1).
          bind_res (Backward_m lut (m_lut S1) dy1) (\<lambda>(dy2, lut').
            Inr (dy2, S1\<lparr>m_lut := lut'\<rparr>)))"

definition StochasticLut_Save ::
  "('lut, 'b, 'v) model_ops \<Rightarrow> ('bn, 'b, 'v) model_ops \<Rightarrow> ('lut, 'bn) StochasticLut
     \<Rightarrow> 8 word list \<Rightarrow> 8 word list" where
  "StochasticLut_Save lut bn S os =
     (let os1 = Save_m lut (m_lut S) os;
          os2 = Save_m bn (m_batch_norm S) os1
      in os2)"

definition StochasticLut_Load ::
  "('lut, 'b, 'v) model_ops \<Rightarrow> ('bn, 'b, 'v) model_ops \<Rightarrow> ('lut, 'bn) StochasticLut
     \<Rightarrow> 8 word list \<Rightarrow> ('lut, 'bn) StochasticLut \<times> 8 word list" where
  "StochasticLut_Load lut bn S is =
     (let (lut', is1) = Load_m lut (m_lut S) is;
          (bn', is2) = Load_m bn (m_batch_norm S) is1
      in (S\<lparr>m_lut := lut', m_batch_norm := bn'\<rparr>, is2))"

section \<open>SparseLutN (SparseLutN.h)\<close>

text \<open>
  Modelled from the spec: the three sub-layers (\<^verbatim>\<open>StochasticLutN\<close>,
  \<^verbatim>\<open>StochasticBatchNormalization\<close> and \<^verbatim>\<open>HardTanh\<close> are not among the sources).
  A sub-layer keeps the input buffer of its last training-mode Forward for Backward
  (spec 4.2, and what \<^verbatim>\<open>ReLU::Forward\<close> does); \<^verbatim>\<open>ReForward\<close> computes the output
  again from a given input and keeps that input (spec 4.5); Backward takes the kept
  buffer out; \<^verbatim>\<open>GetFrameBufferX\<close> and \<^verbatim>\<open>SetFrameBufferX\<close> read and write it.
  What a sub-layer computes is a parameter: \<open>compute\<close> gives the output of Forward and
  the sub-layer's own state after it (parameters, running statistics, random state),
  \<open>recompute\<close> the output of ReForward, \<open>gradient\<close> the input gradient of Backward
  from the kept input and the output gradient, with the state after it.
\<close>

record ('p, 'v) sub_ops =
  compute :: "'p \<Rightarrow> FrameBuffer \<Rightarrow> bool \<Rightarrow> FrameBuffer \<times> 'p"
  recompute :: "'p \<Rightarrow> FrameBuffer \<Rightarrow> FrameBuffer"
  gradient :: "'p \<Rightarrow> FrameBuffer \<Rightarrow> FrameBuffer \<Rightarrow> FrameBuffer \<times> 'p"
  parameters :: "'p \<Rightarrow> 'v list"
  gradients :: "'p \<Rightarrow> 'v list"

record 'p sub_layer =
  m_state :: 'p
  m_x :: FrameBuffer

definition sub_Forward ::
  "('p, 'v) sub_ops \<Rightarrow> 'p sub_layer \<Rightarrow> FrameBuffer \<Rightarrow> bool \<Rightarrow> FrameBuffer \<times> 'p sub_layer" where
  "sub_Forward ops l x_buf train =
     (let (y_buf, p') = compute ops (m_state l) x_buf train
      in (y_buf, \<lparr>m_state = p', m_x = (if train then x_buf else m_x l)\<rparr>))"

definition sub_ReForward ::
  "('p, 'v) sub_ops \<Rightarrow> 'p sub_layer \<Rightarrow> FrameBuffer \<Rightarrow> FrameBuffer \<times> 'p sub_layer" where
  "sub_ReForward ops l x_buf = (recompute ops (m_state l) x_buf, l\<lparr>m_x := x_buf\<rparr>)"

definition sub_Backward ::
  "('p, 'v) sub_ops \<Rightarrow> 'p sub_layer \<Rightarrow> FrameBuffer \<Rightarrow> FrameBuffer \<times> 'p sub_layer" where
  "sub_Backward ops l dy_buf =
     (let (dx_buf, p') = gradient ops (m_state l) (m_x l) dy_buf
      in (dx_buf, \<lparr>m_state = p', m_x = FrameBuffer_empty\<rparr>))"

definition GetFrameBufferX :: "'p sub_layer \<Rightarrow> FrameBuffer" where
  "GetFrameBufferX l = m_x l"

definition SetFrameBufferX :: "'p sub_layer \<Rightarrow> FrameBuffer \<Rightarrow> 'p sub_layer" where
  "SetFrameBufferX l x_buf = l\<lparr>m_x := x_buf\<rparr>"

record ('pl, 'pb, 'pa) SparseLutN =
  m_memory_saving :: bool
  n_lut :: "'pl sub_layer"
  n_batch_norm :: "'pb sub_layer"
  n_activation :: "'pa sub_layer"

definition SparseLutN_GetParameters ::
  "('pl, 'v) sub_ops \<Rightarrow> ('pb, 'v) sub_ops \<Rightarrow> ('pl, 'pb, 'pa) SparseLutN \<Rightarrow> 'v list" where
  "SparseLutN_GetParameters lut bn S =
     ([] @ parameters lut (m_state (n_lut S))) @ parameters bn (m_state (n_batch_norm S))"

definition SparseLutN_GetGradients ::
  "('pl, 'v) sub_ops \<Rightarrow> ('pb, 'v) sub_ops \<Rightarrow> ('pl, 'pb, 'pa) SparseLutN \<Rightarrow> 'v list" where
  "SparseLutN_GetGradients lut bn S =
     ([] @ gradients lut (m_state (n_lut S))) @ gradients bn (m_state (n_batch_norm S))"

text \<open>Forward, lines 209-218.\<close>

definition SparseLutN_Forward ::
  "('pl, 'v) sub_ops \<Rightarrow> ('pb, 'v) sub_ops \<Rightarrow> ('pa, 'v) sub_ops \<Rightarrow> ('pl, 'pb, 'pa) SparseLutN
     \<Rightarrow> FrameBuffer \<Rightarrow> bool \<Rightarrow> FrameBuffer \<times> ('pl, 'pb, 'pa) SparseLutN" where
  "SparseLutN_Forward lut bn act S x_buf train =
     (let (x1, lut1) = sub_Forward lut (n_lut S) x_buf train;
          (x2, bn1) = sub_Forward bn (n_batch_norm S) x1 train;
          bn2 = (if m_memory_saving S \<or> \<not> train then SetFrameBufferX bn1 FrameBuffer_empty else bn1);
          (x3, act1) = sub_Forward act (n_activation S) x2 train;
          act2 = (if m_memory_saving S \<or> \<not> train then SetFrameBufferX act1 FrameBuffer_empty else act1)
      in (x3, S\<lparr>n_lut := lut1, n_batch_norm := bn2, n_activation := act2\<rparr>))"

text \<open>Backward, lines 226-240.\<close>

definition SparseLutN_Backward ::
  "('pl, 'v) sub_ops \<Rightarrow> ('pb, 'v) sub_ops \<Rightarrow> ('pa, 'v) sub_ops \<Rightarrow> ('pl, 'pb, 'pa) SparseLutN
     \<Rightarrow> FrameBuffer \<Rightarrow> FrameBuffer \<times> ('pl, 'pb, 'pa) SparseLutN" where
  "SparseLutN_Backward lut bn act S dy_buf =
     (let S1 = (if m_memory_saving S then
                  let (x1, lut1) = sub_ReForward lut (n_lut S) (GetFrameBufferX (n_lut S));
                      (x2, bn1) = sub_ReForward bn (n_batch_norm S) x1;
                      act1 = SetFrameBufferX (n_activation S) x2
                  in S\<lparr>n_lut := lut1, n_batch_norm := bn1, n_activation := act1\<rparr>
                else S);
          (dy1, act2) = sub_Backward act (n_activation S1) dy_buf;
          (dy2, bn2) = sub_Backward bn (n_batch_norm S1) dy1;
          (dy3, lut2) = sub_Backward lut (n_lut S1) dy2
      in (dy3, S1\<lparr>n_lut := lut2, n_batch_norm := bn2, n_activation := act2\<rparr>))"

section \<open>BinaryModulation (BinaryModulation.h)\<close>

text \<open>
  Modelled from the spec: \<^verbatim>\<open>RealToBinary\<close> and \<^verbatim>\<open>BinaryToReal\<close> (not among the
  sources). The expander holds the five settings of its \<^verbatim>\<open>create_t\<close>, the reducer
  its modulation size and output shape; \<^verbatim>\<open>SetModulationSize\<close> and
  \<^verbatim>\<open>SetValueGenerator\<close> replace the setting they name. What the two layers compute
  is a parameter.
\<close>

record ('g, 'r) RealToBinary_create_t =
  modulation_size :: int
  value_generator :: 'g
  framewise :: bool
  input_range_lo :: 'r
  input_range_hi :: 'r

type_synonym ('g, 'r) RealToBinary = "('g, 'r) RealToBinary_create_t"

definition RealToBinary_Create :: "('g, 'r) RealToBinary_create_t \<Rightarrow> ('g, 'r) RealToBinary" where
  "RealToBinary_Create create = create"

definition RealToBinary_SetModulationSize :: "('g, 'r) RealToBinary \<Rightarrow> int \<Rightarrow> ('g, 'r) RealToBinary" where
  "RealToBinary_SetModulationSize r n = r\<lparr>modulation_size := n\<rparr>"

definition RealToBinary_SetValueGenerator :: "('g, 'r) RealToBinary \<Rightarrow> 'g \<Rightarrow> ('g, 'r) RealToBinary" where
  "RealToBinary_SetValueGenerator r g = r\<lparr>value_generator := g\<rparr>"

record BinaryToReal =
  b2r_modulation_size :: int
  b2r_output_shape :: "nat list"

definition BinaryToReal_Create :: "int \<Rightarrow> nat list \<Rightarrow> BinaryToReal" where
  "BinaryToReal_Create n shape = \<lparr>b2r_modulation_size = n, b2r_output_shape = shape\<rparr>"

definition BinaryToReal_SetModulationSize :: "BinaryToReal \<Rightarrow> int \<Rightarrow> BinaryToReal" where
  "BinaryToReal_SetModulationSize b n = b\<lparr>b2r_modulation_size := n\<rparr>"

record ('l, 'g, 'r) BinaryModulation_create_t =
  layer :: 'l
  create_output_shape :: "nat list"
  training_modulation_size :: int
  training_value_generator :: 'g
  training_framewise :: bool
  training_input_range_lo :: 'r
  training_input_range_hi :: 'r
  inference_modulation_size :: int
  inference_value_generator :: 'g
  inference_framewise :: bool
  inference_input_range_lo :: 'r
  inference_input_range_hi :: 'r

record ('l, 'g, 'r) BinaryModulation =
  m_real2bin :: "('g, 'r) RealToBinary"
  m_layer :: 'l
  m_bin2real :: BinaryToReal
  m_training :: bool
  m_training_create :: "('g, 'r) RealToBinary_create_t"
  m_inference_create :: "('g, 'r) RealToBinary_create_t"

text \<open>The constructor, lines 59-77.\<close>

definition BinaryModulation_Create ::
  "('l, 'g, 'r) BinaryModulation_create_t \<Rightarrow> ('l, 'g, 'r) BinaryModulation" where
  "BinaryModulation_Create create =
     (let training_create =
            \<lparr>modulation_size = training_modulation_size create,
             value_generator = training_value_generator create,
             framewise = training_framewise create,
             input_range_lo = training_input_range_lo create,
             input_range_hi = training_input_range_hi create\<rparr>;
          inference_create =
            \<lparr>modulation_size = inference_modulation_size create,
             value_generator = inference_value_generator create,
             framewise = inference_framewise create,
             input_range_lo = inference_input_range_lo create,
             input_range_hi = inference_input_range_hi create\<rparr>
      in \<lparr>m_real2bin = RealToBinary_Create training_create,
          m_layer = layer create,
          m_bin2real = BinaryToReal_Create (training_modulation_size create) (create_output_shape create),
          m_training = True,
          m_training_create = training_create,
          m_inference_create = inference_create\<rparr>)"

text \<open>The switch at the head of Forward, lines 187-199.\<close>

definition BinaryModulation_switch ::
  "('l, 'g, 'r) BinaryModulation \<Rightarrow> bool \<Rightarrow> ('l, 'g, 'r) BinaryModulation" where
  "BinaryModulation_switch S train =
     (if train \<and> \<not> m_training S then
        S\<lparr>m_real2bin :=
             RealToBinary_SetValueGenerator
               (RealToBinary_SetModulationSize (m_real2bin S) (modulation_size (m_training_create S)))
               (value_generator (m_training_create S)),
           m_bin2real :=
             BinaryToReal_SetModulationSize (m_bin2real S) (modulation_size (m_training_create S)),
           m_training := True\<rparr>
      else if \<not> train \<and> m_training S then
        S\<lparr>m_real2bin :=
             RealToBinary_SetValueGenerator
               (RealToBinary_SetModulationSize (m_real2bin S) (modulation_size (m_inference_create S)))
               (value_generator (m_inference_create S)),
           m_bin2real :=
             BinaryToReal_SetModulationSize (m_bin2real S) (modulation_size (m_inference_create S)),
           m_training := False\<rparr>
      else S)"

definition BinaryModulation_Forward ::
  "(('g, 'r) RealToBinary, 'b, 'v) layer_ops \<Rightarrow> ('l, 'b, 'v) layer_ops \<Rightarrow> (BinaryToReal, 'b, 'v) layer_ops
     \<Rightarrow> ('l, 'g, 'r) BinaryModulation \<Rightarrow> 'b \<Rightarrow> bool \<Rightarrow> error + ('b \<times> ('l, 'g, 'r) BinaryModulation)" where
  "BinaryModulation_Forward real2bin inner bin2real S0 x train =
     (let S = BinaryModulation_switch S0 train
      in bind_res (Forward_m real2bin (m_real2bin S) x train) (\<lambda>(x1, r').
           bind_res (Forward_m inner (m_layer S) x1 train) (\<lambda>(x2, l').
             bind_res (Forward_m bin2real (m_bin2real S) x2 train) (\<lambda>(x3, b').
               Inr (x3, S\<lparr>m_real2bin := r', m_layer := l', m_bin2real := b'\<rparr>)))))"

definition BinaryModulation_GetParameters ::
  "(('g, 'r) RealToBinary, 'b, 'v) layer_ops \<Rightarrow> ('l, 'b, 'v) layer_ops \<Rightarrow> (BinaryToReal, 'b, 'v) layer_ops
     \<Rightarrow> ('l, 'g, 'r) BinaryModulation \<Rightarrow> 'v list" where
  "BinaryModulation_GetParameters real2bin inner bin2real S =
     (([] @ GetParameters_m real2bin (m_real2bin S)) @ GetParameters_m inner (m_layer S))
       @ GetParameters_m bin2real (m_bin2real S)"

definition BinaryModulation_GetGradients ::
  "(('g, 'r) RealToBinary, 'b, 'v) layer_ops \<Rightarrow> ('l, 'b, 'v) layer_ops \<Rightarrow> (BinaryToReal, 'b, 'v) layer_ops
     \<Rightarrow> ('l, 'g, 'r) BinaryModulation \<Rightarrow> 'v list" where
  "BinaryModulation_GetGradients real2bin inner bin2real S =
     (([] @ GetGradients_m real2bin (m_real2bin S)) @ GetGradients_m inner (m_layer S))
       @ GetGradients_m bin2real (m_bin2real S)"

section \<open>Example values for the composite layers\<close>

text \<open>
  Children of a StochasticLut whose state is one byte: they double the buffer (an
  integer here), name their tensors, and write and read their byte.
\<close>

definition example_child_ops :: "string list \<Rightarrow> (8 word, int, string) model_ops" where
  "example_child_ops names =
     \<lparr>Forward_m = (\<lambda>l x train. Inr (2 * x, l)),
      Backward_m = (\<lambda>l dy. Inr (2 * dy, l)),
      GetParameters_m = (\<lambda>l. names),
      GetGradients_m = (\<lambda>l. map (\<lambda>name. ''d'' @ name) names),
      ForwardNode_m = (\<lambda>l node x_vec. x_vec),
      Save_m = (\<lambda>l os. os @ [l]),
      Load_m = (\<lambda>l bytes. case bytes of [] \<Rightarrow> (l, []) | b # rest \<Rightarrow> (b, rest))\<rparr>"

definition example_StochasticLut :: "bool \<Rightarrow> (8 word, 8 word) StochasticLut" where
  "example_StochasticLut enable = \<lparr>m_lut = 1, m_batch_norm = 2, m_bn_enable = enable\<rparr>"

text \<open>
  Sub-layers of a SparseLutN whose state is one weight \<open>w\<close>: the output is \<open>w * x\<close>,
  the input gradient \<open>w * x * dy\<close> with the kept \<open>x\<close>, element by element.
\<close>

definition scale_buf :: "real \<Rightarrow> FrameBuffer \<Rightarrow> FrameBuffer" where
  "scale_buf w buf = buf\<lparr>fb_data := map (map (\<lambda>v. w * v)) (fb_data buf)\<rparr>"

definition times_buf :: "real \<Rightarrow> FrameBuffer \<Rightarrow> FrameBuffer \<Rightarrow> FrameBuffer" where
  "times_buf w x_buf dy_buf =
     dy_buf\<lparr>fb_data := map2 (map2 (\<lambda>x dy. w * x * dy)) (fb_data x_buf) (fb_data dy_buf)\<rparr>"

definition example_sub_ops :: "(real, string) sub_ops" where
  "example_sub_ops =
     \<lparr>compute = (\<lambda>w x_buf train. (scale_buf w x_buf, w)),
      recompute = (\<lambda>w x_buf. scale_buf w x_buf),
      gradient = (\<lambda>w x_buf dy_buf. (times_buf w x_buf dy_buf, w)),
      parameters = (\<lambda>w. [''W'']),
      gradients = (\<lambda>w. [''dW''])\<rparr>"

definition example_SparseLutN :: "bool \<Rightarrow> (real, real, real) SparseLutN" where
  "example_SparseLutN saving =
     \<lparr>m_memory_saving = saving,
      n_lut = \<lparr>m_state = 2, m_x = FrameBuffer_empty\<rparr>,
      n_batch_norm = \<lparr>m_state = 3, m_x = FrameBuffer_empty\<rparr>,
      n_activation = \<lparr>m_state = 1, m_x = FrameBuffer_empty\<rparr>\<rparr>"

text \<open>
  A BinaryModulation whose training and inference settings all differ; its three
  children pass the buffer on and keep their state.
\<close>

definition example_create :: "(nat, string, real) BinaryModulation_create_t" where
  "example_create =
     \<lparr>layer = 0, create_output_shape = [1],
      training_modulation_size = 1, training_value_generator = ''training generator'',
      training_framewise = True, training_input_range_lo = 0, training_input_range_hi = 1,
      inference_modulation_size = 4, inference_value_generator = ''inference generator'',
      inference_framewise = False, inference_input_range_lo = - 1, inference_input_range_hi = 1\<rparr>"

definition example_layer_ops :: "string list \<Rightarrow> ('l, 'b, string) layer_ops" where
  "example_layer_ops names =
     \<lparr>Forward_m = (\<lambda>l x train. Inr (x, l)),
      Backward_m = (\<lambda>l dy. Inr (dy, l)),
      GetParameters_m = (\<lambda>l. names),
      GetGradients_m = (\<lambda>l. map (\<lambda>name. ''d'' @ name) names)\<rparr>"

section \<open>Notions for stating the results on the generator\<close>

text \<open>
  The sets that successive calls of \<^verbatim>\<open>GetRandomSet\<close> return when asked for the
  given sizes in turn, with the ShuffleSet state after the last call.
\<close>

fun draw_sets ::
  "('mt, 'ss) random_ops \<Rightarrow> 'ss \<Rightarrow> nat list \<Rightarrow> nat list list \<times> 'ss" where
  "draw_sets ops ss [] = ([], ss)"
| "draw_sets ops ss (n # ns) =
     (let (random_set, ss1) = ss_GetRandomSet ops ss n;
          (rest, ss2) = draw_sets ops ss1 ns
      in (random_set # rest, ss2))"

text \<open>
  A valid row of the connection table: as many entries as the node's fan-in, each an
  index of an input node, no index twice.
\<close>

definition valid_node_inputs :: "SparseLayer \<Rightarrow> nat \<Rightarrow> bool" where
  "valid_node_inputs L node \<longleftrightarrow>
     length (node_inputs L node) = GetNodeInputSize L node \<and>
     (\<forall>v \<in> set (node_inputs L node). v < GetShapeSize (GetInputShape L)) \<and>
     distinct (node_inputs L node)"

definition valid_table :: "SparseLayer \<Rightarrow> bool" where
  "valid_table L \<longleftrightarrow> (\<forall>node < GetShapeSize (GetOutputShape L). valid_node_inputs L node)"

text \<open>
  What the generator needs of \<^verbatim>\<open>ShuffleSet\<close>: for some invariant \<open>I ss size\<close> of its
  states that holds after construction over \<open>size\<close> indices, a call of
  \<^verbatim>\<open>GetRandomSet(n)\<close> with \<open>n \<le> size\<close> returns \<open>n\<close> different indices below
  \<open>size\<close> and keeps the invariant.
\<close>

definition ShuffleSet_contract :: "('mt, 'ss) random_ops \<Rightarrow> ('ss \<Rightarrow> nat \<Rightarrow> bool) \<Rightarrow> bool" where
  "ShuffleSet_contract ops I \<longleftrightarrow>
     (\<forall>size seed. I (ss_new ops size seed) size) \<and>
     (\<forall>ss size n. I ss size \<and> n \<le> size \<longrightarrow>
        (case ss_GetRandomSet ops ss n of
           (random_set, ss') \<Rightarrow>
             length random_set = n \<and> distinct random_set \<and>
             (\<forall>v \<in> set random_set. v < size) \<and> I ss' size))"

text \<open>
  The sets that the random strategy draws for the output nodes 0, 1, ... in turn: they
  depend on the seed, the input node count and the fan-ins only.
\<close>

definition random_table :: "('mt, 'ss) random_ops \<Rightarrow> 64 word \<Rightarrow> SparseLayer \<Rightarrow> nat list list" where
  "random_table ops seed L =
     fst (draw_sets ops (ss_new ops (GetShapeSize (GetInputShape L)) seed)
            (map (GetNodeInputSize L) [0..<GetShapeSize (GetOutputShape L)]))"

text \<open>
  An example of the outside parts, for concrete runs: the Mersenne twister is a
  counter, a ShuffleSet over \<open>size\<close> indices is the deck \<open>0, ..., size - 1\<close> rotated by
  the seed, \<^verbatim>\<open>GetRandomSet(n)\<close> deals the first \<open>n\<close> cards and puts them at the
  bottom, a gauss sample is the counter modulo the input node count, and
  \<^verbatim>\<open>GetNextIndices\<close> steps through a one-dimensional shape.
\<close>

definition example_random_ops :: "(64 word, nat list) random_ops" where
  "example_random_ops =
     \<lparr>mt_seed = (\<lambda>seed. seed),
      mt_next = (\<lambda>mt. (mt + 1, mt + 1)),
      ss_new = (\<lambda>size seed. rotate (unat seed) [0..<size]),
      ss_GetRandomSet = (\<lambda>ss n. (take n ss, rotate n ss)),
      gauss_sample = (\<lambda>mt input_shape output_shape output_index.
                        (unat mt mod GetShapeSize input_shape, mt + 1)),
      GetNextIndices = (\<lambda>indices shape.
                          case (indices, shape) of
                            ([i], [n]) \<Rightarrow> if i + 1 < n then (True, [i + 1]) else (False, [0])
                          | _ \<Rightarrow> (False, indices))\<rparr>"

definition example_SparseLayer :: "nat list \<Rightarrow> nat list \<Rightarrow> nat \<Rightarrow> nat \<Rightarrow> SparseLayer" where
  "example_SparseLayer input_shape output_shape N v =
     \<lparr>m_input_shape = input_shape, m_output_shape = output_shape,
      m_node_input_size = (\<lambda>node. N), m_node_input = (\<lambda>node i. v)\<rparr>"

text \<open>The generator writes table entries only: shapes and fan-ins stay.\<close>

definition same_frame :: "SparseLayer \<Rightarrow> SparseLayer \<Rightarrow> bool" where
  "same_frame L L' \<longleftrightarrow>
     GetInputShape L' = GetInputShape L \<and> GetOutputShape L' = GetOutputShape L \<and>
     GetNodeInputSize L' = GetNodeInputSize L"

text \<open>
  The output nodes that the \<^verbatim>\<open>do ... while\<close> of the gauss strategy visits, starting
  from \<open>output_index\<close>, in at most \<open>rounds\<close> rounds.
\<close>

fun gauss_visits :: "nat \<Rightarrow> ('mt, 'ss) random_ops \<Rightarrow> nat list \<Rightarrow> nat list \<Rightarrow> nat list" where
  "gauss_visits 0 ops output_index output_shape = []"
| "gauss_visits (Suc rounds) ops output_index output_shape =
     GetShapeIndex output_index output_shape #
       (case GetNextIndices ops output_index output_shape of
          (True, output_index') \<Rightarrow> gauss_visits rounds ops output_index' output_shape
        | (False, output_index') \<Rightarrow> [])"

text \<open>
  The indices a strategy draws one row from: the channels of the input for pointwise,
  the spatial positions of one input channel for depthwise, all input nodes for
  serial and random.
\<close>

definition strategy_population :: "string list \<Rightarrow> SparseLayer \<Rightarrow> nat" where
  "strategy_population argv L =
     (if argv \<noteq> [] \<and> argv ! 0 = ''pointwise'' then GetInputShape L ! 2
      else if argv \<noteq> [] \<and> argv ! 0 = ''depthwise'' then GetInputShape L ! 0 * GetInputShape L ! 1
      else GetShapeSize (GetInputShape L))"



section \<open>Results on Sequential\<close>

lemma bind_res_Inl [simp]: "bind_res (Inl e) f = Inl e"
  by (simp add: bind_res_def)

lemma bind_res_Inr [simp]: "bind_res (Inr v) f = f v"
  by (simp add: bind_res_def)

lemma Sequential_Forward_loop_snoc:
  "Sequential_Forward_loop ops visited (ls @ [l]) x t =
     bind_res (Sequential_Forward_loop ops visited ls x t) (\<lambda>(y, ls').
       bind_res (Forward_m ops l y t) (\<lambda>(z, l'). Inr (z, ls' @ [l'])))"
  by (induction ls arbitrary: visited x) (auto split: sum.splits)

lemma Sequential_Backward_loop_snoc:
  "Sequential_Backward_loop ops visited (rs @ [l]) dy =
     bind_res (Sequential_Backward_loop ops visited rs dy) (\<lambda>(d, ls').
       bind_res (Backward_m ops l d) (\<lambda>(dx, l'). Inr (dx, l' # ls')))"
  by (induction rs arbitrary: visited dy) (auto split: sum.splits)

lemma Sequential_GetParameters_loop_concat:
  "Sequential_GetParameters_loop ops acc ls = acc @ concat (map (GetParameters_m ops) ls)"
  by (induction ls arbitrary: acc) auto

lemma Sequential_GetGradients_loop_concat:
  "Sequential_GetGradients_loop ops acc ls = acc @ concat (map (GetGradients_m ops) ls)"
  by (induction ls arbitrary: acc) auto

text \<open>
  Claim C4. For a Sequential with children \<open>L1..Lk\<close>, Forward feeds the output of
  \<open>L1..Lk-1\<close> to \<open>Lk\<close> last (with no child it returns its input), Backward feeds the
  gradient that \<open>L2..Lk\<close> return to \<open>L1\<close> last, every child being left in the state
  its own call returned; GetParameters and GetGradients are the concatenation of the
  children's parameters and gradients in insertion order. An error of a child ends
  the pass.
\<close>

theorem Sequential_threads_children_in_order:
  "Sequential_Forward ops [] x train = Inr (x, []) \<and>
   Sequential_Forward ops (ls @ [layer_k]) x train =
     bind_res (Sequential_Forward ops ls x train) (\<lambda>(y, ls').
       bind_res (Forward_m ops layer_k y train) (\<lambda>(z, layer_k'). Inr (z, ls' @ [layer_k']))) \<and>
   Sequential_Backward ops [] dy = Inr (dy, []) \<and>
   Sequential_Backward ops (layer_1 # ls) dy =
     bind_res (Sequential_Backward ops ls dy) (\<lambda>(d, ls').
       bind_res (Backward_m ops layer_1 d) (\<lambda>(dx, layer_1'). Inr (dx, layer_1' # ls'))) \<and>
   Sequential_GetParameters ops ls = concat (map (GetParameters_m ops) ls) \<and>
   Sequential_GetGradients ops ls = concat (map (GetGradients_m ops) ls)"
  by (simp add: Sequential_Forward_def Sequential_Backward_def Sequential_Forward_loop_snoc
      Sequential_Backward_loop_snoc Sequential_GetParameters_def Sequential_GetGradients_def
      Sequential_GetParameters_loop_concat Sequential_GetGradients_loop_concat)

section \<open>Results on the connectivity generator\<close>

lemma for_each_append:
  "for_each (xs @ ys) body s = bind_res (for_each xs body s) (for_each ys body)"
  by (induction xs arbitrary: s) (auto simp: bind_res_def split: sum.splits)

lemma for_each_snoc:
  "for_each (xs @ [x]) body s = bind_res (for_each xs body s) (body x)"
  by (simp add: for_each_append bind_res_def split: sum.splits)

lemma serial_inner:
  assumes body: "\<And>i c L2. body i (c, L2) = Inr (c + 1, SetNodeInput L2 node i (c mod isz))"
  shows "for_each [0..<m] body (c0, L) =
         Inr (c0 + m, L\<lparr>m_node_input := (\<lambda>n i. if n = node \<and> i < m then (c0 + i) mod isz
                                                  else m_node_input L n i)\<rparr>)"
proof (induction m)
  case 0
  show ?case by simp
next
  case (Suc m)
  show ?case
    by (simp add: for_each_snoc Suc body SetNodeInput_def fun_eq_iff)
qed

lemma serial_offset_0 [simp]: "serial_offset L 0 = 0"
  by (simp add: serial_offset_def)

lemma serial_offset_Suc [simp]:
  "serial_offset L (Suc k) = serial_offset L k + GetNodeInputSize L k"
  by (simp add: serial_offset_def)

lemma GetNodeInputSize_update [simp]:
  "GetNodeInputSize (L\<lparr>m_node_input := t\<rparr>) = GetNodeInputSize L"
  by (simp add: GetNodeInputSize_def fun_eq_iff)

lemma node_input_update_cong:
  "(\<And>n i. f n i = g n i) \<Longrightarrow> L\<lparr>m_node_input := f\<rparr> = L\<lparr>m_node_input := g\<rparr>"
  by (simp add: fun_eq_iff)

lemma serial_outer:
  assumes body: "\<And>node c L1. body node (c, L1) =
      Inr (c + GetNodeInputSize L1 node,
           L1\<lparr>m_node_input := (\<lambda>n i. if n = node \<and> i < GetNodeInputSize L1 node then (c + i) mod isz
                                                  else m_node_input L1 n i)\<rparr>)"
  shows "for_each [0..<k] body (0, L) =
         Inr (serial_offset L k,
              L\<lparr>m_node_input := (\<lambda>n i. if n < k \<and> i < GetNodeInputSize L n
                                        then (serial_offset L n + i) mod isz
                                        else m_node_input L n i)\<rparr>)"
proof (induction k)
  case 0
  show ?case by simp
next
  case (Suc k)
  show ?case
    by (simp add: for_each_snoc Suc body) (rule node_input_update_cong, auto simp: less_Suc_eq)
qed

lemma serial_connect_closed:
  assumes "0 < GetShapeSize (GetInputShape L)"
  shows "serial_connect L =
     Inr (L\<lparr>m_node_input := (\<lambda>n i.
            if n < GetShapeSize (GetOutputShape L) \<and> i < GetNodeInputSize L n
            then (serial_offset L n + i) mod GetShapeSize (GetInputShape L)
            else m_node_input L n i)\<rparr>)"
proof -
  let ?isz = "GetShapeSize (GetInputShape L)"
  let ?inner = "\<lambda>output_node i (input_node, L2).
                   if ?isz = 0 then Inl DivByZero
                   else Inr (input_node + 1,
                             SetNodeInput L2 output_node i (input_node mod ?isz))"
  let ?outer = "\<lambda>output_node (input_node, L1).
              let m = GetNodeInputSize L1 output_node
              in for_each [0..<m] (?inner output_node) (input_node, L1)"
  have inner: "\<And>node m c0 L1. for_each [0..<m] (?inner node) (c0, L1) =
         Inr (c0 + m, L1\<lparr>m_node_input := (\<lambda>n i. if n = node \<and> i < m then (c0 + i) mod ?isz
                                                  else m_node_input L1 n i)\<rparr>)"
    by (rule serial_inner) (use assms in simp)
  have outer: "for_each [0..<GetShapeSize (GetOutputShape L)] ?outer (0, L) = 
         Inr (serial_offset L (GetShapeSize (GetOutputShape L)),
              L\<lparr>m_node_input := (\<lambda>n i. if n < GetShapeSize (GetOutputShape L) \<and> i < GetNodeInputSize L n
                                        then (serial_offset L n + i) mod ?isz
                                        else m_node_input L n i)\<rparr>)"
    by (rule serial_outer) (simp only: inner Let_def prod.case)
  show ?thesis
    unfolding serial_connect_def Let_def
    by (simp only: outer[unfolded Let_def] bind_res_Inr prod.case)
qed


lemma InitializeNodeInput_serial:
  "InitializeNodeInput fuel ops seed ''serial'' L = Some (serial_connect L)"
  by (simp add: InitializeNodeInput_def SplitString_def)

text \<open>
  Claim C7. With the serial strategy, fan-in 2, input shape [4] and output shape [2],
  whatever the seed and the table before, the connection table is [[0, 1], [2, 3]].
  In general, when the input shape has at least one node, serial returns, and slot
  \<open>i\<close> of output node \<open>node\<close> holds the position of the pair (\<open>node\<close>, \<open>i\<close>) in
  row-major order, taken modulo the input node count.
\<close>

theorem serial_assigns_cyclically:
  "(m_input_shape L = [4] \<and> m_output_shape L = [2] \<and> (\<forall>node. m_node_input_size L node = 2) \<longrightarrow>
      (\<exists>L'. InitializeNodeInput fuel ops seed ''serial'' L = Some (Inr L') \<and>
            connection_table L' = [[0, 1], [2, 3]])) \<and>
   (0 < GetShapeSize (GetInputShape L) \<longrightarrow>
      (\<exists>L'. InitializeNodeInput fuel ops seed ''serial'' L = Some (Inr L') \<and>
            GetOutputShape L' = GetOutputShape L \<and>
            (\<forall>node < GetShapeSize (GetOutputShape L).
               node_inputs L' node =
                 map (\<lambda>i. (serial_offset L node + i) mod GetShapeSize (GetInputShape L))
                   [0..<GetNodeInputSize L node])))"
proof (intro conjI impI)
  assume a: "m_input_shape L = [4] \<and> m_output_shape L = [2] \<and> (\<forall>node. m_node_input_size L node = 2)"
  then have pos: "0 < GetShapeSize (GetInputShape L)"
    by (simp add: GetInputShape_def)
  have two: "[0..<2] = [0, 1]"
    by (simp add: upt_rec)
  show "\<exists>L'. InitializeNodeInput fuel ops seed ''serial'' L = Some (Inr L') \<and>
            connection_table L' = [[0, 1], [2, 3]]"
    using a
    by (simp add: InitializeNodeInput_serial serial_connect_closed[OF pos] connection_table_def
        node_inputs_def GetNodeInput_def GetNodeInputSize_def GetOutputShape_def
        GetInputShape_def serial_offset_def two)
next
  assume pos: "0 < GetShapeSize (GetInputShape L)"
  show "\<exists>L'. InitializeNodeInput fuel ops seed ''serial'' L = Some (Inr L') \<and>
            GetOutputShape L' = GetOutputShape L \<and>
            (\<forall>node < GetShapeSize (GetOutputShape L).
               node_inputs L' node =
                 map (\<lambda>i. (serial_offset L node + i) mod GetShapeSize (GetInputShape L))
                   [0..<GetNodeInputSize L node])"
    by (simp add: InitializeNodeInput_serial serial_connect_closed[OF pos]
        node_inputs_def GetNodeInput_def GetOutputShape_def)
qed

theorem serial_assigns_cyclically_witness:
  "\<forall>fuel (ops :: ('mt, 'ss) random_ops) seed.
     \<exists>L'. InitializeNodeInput fuel ops seed ''serial''
            \<lparr>m_input_shape = [3], m_output_shape = [2], m_node_input_size = (\<lambda>node. 2),
             m_node_input = (\<lambda>node i. 7)\<rparr> = Some (Inr L') \<and>
          connection_table L' = [[0, 1], [2, 0]]"
proof (intro allI)
  fix fuel and ops :: "('mt, 'ss) random_ops" and seed
  let ?L = "\<lparr>m_input_shape = [3], m_output_shape = [2], m_node_input_size = (\<lambda>node. 2),
             m_node_input = (\<lambda>node i. 7)\<rparr>"
  have two: "[0..<2] = [0, 1]"
    by (simp add: upt_rec)
  from serial_assigns_cyclically[of ?L fuel ops seed]
  show "\<exists>L'. InitializeNodeInput fuel ops seed ''serial'' ?L = Some (Inr L') \<and>
          connection_table L' = [[0, 1], [2, 0]]"
    by (auto simp: GetInputShape_def GetOutputShape_def GetNodeInputSize_def
        connection_table_def serial_offset_def two)
qed

text \<open>
  Claim C9. An empty connection string selects the random strategy. A connection
  string whose first token is none of the five strategy names fails the final
  assertion. Pointwise fails an assertion when a shape is not 3-D or the x or y
  extents differ; depthwise fails an assertion when a shape is not 3-D or the channel
  counts differ.
\<close>

theorem strategy_selection_and_guards:
  "InitializeNodeInput fuel ops seed [] L = Some (random_connect ops seed L) \<and>
   (SplitString connection = token # rest \<and>
    token \<notin> {''pointwise'', ''depthwise'', ''gauss'', ''serial'', ''random''} \<longrightarrow>
      InitializeNodeInput fuel ops seed connection L = Some (Inl AssertFailed)) \<and>
   (SplitString connection = ''pointwise'' # rest \<and>
    (length (GetInputShape L) \<noteq> 3 \<or> length (GetOutputShape L) \<noteq> 3 \<or>
     GetInputShape L ! 0 \<noteq> GetOutputShape L ! 0 \<or> GetInputShape L ! 1 \<noteq> GetOutputShape L ! 1) \<longrightarrow>
      InitializeNodeInput fuel ops seed connection L = Some (Inl AssertFailed)) \<and>
   (SplitString connection = ''depthwise'' # rest \<and>
    (length (GetInputShape L) \<noteq> 3 \<or> length (GetOutputShape L) \<noteq> 3 \<or>
     GetInputShape L ! 2 \<noteq> GetOutputShape L ! 2) \<longrightarrow>
      InitializeNodeInput fuel ops seed connection L = Some (Inl AssertFailed))"
proof (intro conjI impI)
  show "InitializeNodeInput fuel ops seed [] L = Some (random_connect ops seed L)"
    by (simp add: InitializeNodeInput_def SplitString_def)
next
  assume "SplitString connection = token # rest \<and>
    token \<notin> {''pointwise'', ''depthwise'', ''gauss'', ''serial'', ''random''}"
  then show "InitializeNodeInput fuel ops seed connection L = Some (Inl AssertFailed)"
    by (simp add: InitializeNodeInput_def)
next
  assume "SplitString connection = ''pointwise'' # rest \<and>
    (length (GetInputShape L) \<noteq> 3 \<or> length (GetOutputShape L) \<noteq> 3 \<or>
     GetInputShape L ! 0 \<noteq> GetOutputShape L ! 0 \<or> GetInputShape L ! 1 \<noteq> GetOutputShape L ! 1)"
  then show "InitializeNodeInput fuel ops seed connection L = Some (Inl AssertFailed)"
    by (auto simp add: InitializeNodeInput_def pointwise_connect_def Let_def)
next
  assume "SplitString connection = ''depthwise'' # rest \<and>
    (length (GetInputShape L) \<noteq> 3 \<or> length (GetOutputShape L) \<noteq> 3 \<or>
     GetInputShape L ! 2 \<noteq> GetOutputShape L ! 2)"
  then show "InitializeNodeInput fuel ops seed connection L = Some (Inl AssertFailed)"
    by (auto simp add: InitializeNodeInput_def depthwise_connect_def Let_def)
qed

theorem strategy_selection_and_guards_witness:
  "\<forall>fuel (ops :: ('mt, 'ss) random_ops) seed.
     InitializeNodeInput fuel ops seed ''checker''
       \<lparr>m_input_shape = [4], m_output_shape = [2], m_node_input_size = (\<lambda>node. 2),
        m_node_input = (\<lambda>node i. 0)\<rparr> = Some (Inl AssertFailed) \<and>
     InitializeNodeInput fuel ops seed ''pointwise''
       \<lparr>m_input_shape = [2, 2, 3], m_output_shape = [2, 3, 3], m_node_input_size = (\<lambda>node. 2),
        m_node_input = (\<lambda>node i. 0)\<rparr> = Some (Inl AssertFailed) \<and>
     InitializeNodeInput fuel ops seed ''depthwise''
       \<lparr>m_input_shape = [2, 2, 3], m_output_shape = [2, 2, 4], m_node_input_size = (\<lambda>node. 2),
        m_node_input = (\<lambda>node i. 0)\<rparr> = Some (Inl AssertFailed)"
proof (intro allI conjI)
  fix fuel and ops :: "('mt, 'ss) random_ops" and seed
  let ?L1 = "\<lparr>m_input_shape = [4], m_output_shape = [2], m_node_input_size = (\<lambda>node. 2),
        m_node_input = (\<lambda>node i. 0)\<rparr>"
  let ?L2 = "\<lparr>m_input_shape = [2, 2, 3], m_output_shape = [2, 3, 3], m_node_input_size = (\<lambda>node. 2),
        m_node_input = (\<lambda>node i. 0)\<rparr>"
  let ?L3 = "\<lparr>m_input_shape = [2, 2, 3], m_output_shape = [2, 2, 4], m_node_input_size = (\<lambda>node. 2),
        m_node_input = (\<lambda>node i. 0)\<rparr>"
  show "InitializeNodeInput fuel ops seed ''checker'' ?L1 = Some (Inl AssertFailed)"
    using strategy_selection_and_guards[of fuel ops seed ?L1 "''checker''" "''checker''" "[]"]
    by (simp add: SplitString_def)
  show "InitializeNodeInput fuel ops seed ''pointwise'' ?L2 = Some (Inl AssertFailed)"
    using strategy_selection_and_guards[of fuel ops seed ?L2 "''pointwise''" _ "[]"]
    by (simp add: SplitString_def GetInputShape_def GetOutputShape_def)
  show "InitializeNodeInput fuel ops seed ''depthwise'' ?L3 = Some (Inl AssertFailed)"
    using strategy_selection_and_guards[of fuel ops seed ?L3 "''depthwise''" _ "[]"]
    by (simp add: SplitString_def GetInputShape_def GetOutputShape_def)
qed

section \<open>Results on ReLU\<close>

lemma ReLU_Forward_training:
  assumes "\<not> m_binary_mode r" and "ReLU_Forward ops r x True = Inr (y, r')"
  shows "r' = r\<lparr>m_x_buf := x, m_y_buf := y\<rparr>"
  using assms
  by (auto simp: ReLU_Forward_def Let_def bind_res_def split: if_splits sum.splits)

lemma ReLU_Forward_inference:
  assumes "\<not> m_binary_mode r" and "ReLU_Forward ops r x False = Inr (y, r')"
  shows "r' = r"
  using assms
  by (auto simp: ReLU_Forward_def Let_def bind_res_def split: if_splits sum.splits)

lemma ReLU_Forward_mode:
  assumes "\<not> m_binary_mode r" and "ReLU_Forward ops r x train = Inr (y, r')"
  shows "\<not> m_binary_mode r'"
  using assms
  by (auto simp: ReLU_Forward_def Let_def bind_res_def split: if_splits sum.splits)

lemma ReLU_Forward_output:
  assumes "\<not> m_binary_mode r" "\<not> m_binary_mode q"
    and "ReLU_Forward ops r x train = Inr (y, r')"
  shows "\<exists>q'. ReLU_Forward ops q x train2 = Inr (y, q')"
  using assms
  by (auto simp: ReLU_Forward_def Let_def bind_res_def split: if_splits sum.splits)

lemma ReLU_Backward_cache:
  assumes "\<not> m_binary_mode r" "\<not> m_binary_mode q" "m_y_buf r = m_y_buf q"
  shows "map_sum id fst (ReLU_Backward ops r dy) = map_sum id fst (ReLU_Backward ops q dy)"
  using assms
  by (auto simp: ReLU_Backward_def Let_def bind_res_def split: if_splits sum.splits)

lemmas example_ReLU_defs = example_Binarize_ops_def example_ReLU_def example_buf_def FrameBuffer_empty_def
  ReLU_Forward_def ReLU_Backward_def GetNodeSize_def buf_Get_def Let_def

text \<open>
  Claim C5, as stated, at a concrete input: a training-mode Forward of 1, then an
  inference-mode Forward of -1. The layer still keeps the buffers of the first call,
  and Backward of the gradient 5 returns 5, the gradient for the first input; with the
  values of the most recent Forward (output 0) it returns 0.
\<close>

theorem ReLU_inference_Forward_keeps_cache_counterexample:
  "bind_res (ReLU_Forward example_Binarize_ops example_ReLU (example_buf 1) True) (\<lambda>(y1, r1).
     bind_res (ReLU_Forward example_Binarize_ops r1 (example_buf (-1)) False) (\<lambda>(y2, r2).
       bind_res (ReLU_Backward example_Binarize_ops r2 (example_buf 5)) (\<lambda>(dx, r3).
         Inr (m_x_buf r2, m_y_buf r2, dx)))) =
     Inr (example_buf 1, example_buf 1, example_buf 5) \<and>
   bind_res (ReLU_Forward example_Binarize_ops example_ReLU (example_buf (-1)) True) (\<lambda>(y2, r2).
     bind_res (ReLU_Backward example_Binarize_ops r2 (example_buf 5)) (\<lambda>(dx, r3).
       Inr (m_x_buf r2, m_y_buf r2, dx))) =
     Inr (example_buf (-1), example_buf 0, example_buf 0)"
  by (simp add: example_ReLU_defs)

text \<open>
  Claim C5, amended. Outside binary mode, a training-mode Forward replaces the kept
  input and output by its own, so that after any Forward followed by a training-mode
  Forward the layer is in the state, and Backward gives the result, that the second
  call alone produces; an inference-mode Forward leaves the layer, and so the buffers
  kept by an earlier training-mode Forward, unchanged.
\<close>

theorem ReLU_cache_is_last_training_Forward:
  "\<not> m_binary_mode r \<longrightarrow>
     (ReLU_Forward ops r x True = Inr (y, r') \<longrightarrow> r' = r\<lparr>m_x_buf := x, m_y_buf := y\<rparr>) \<and>
     (ReLU_Forward ops r x False = Inr (y, r') \<longrightarrow> r' = r) \<and>
     (ReLU_Forward ops r x1 train1 = Inr (y1, r1) \<and> ReLU_Forward ops r1 x2 True = Inr (y2, r2) \<longrightarrow>
        ReLU_Backward ops r2 dy = ReLU_Backward ops (r\<lparr>m_x_buf := x2, m_y_buf := y2\<rparr>) dy \<and>
        ReLU_Forward ops r x2 True = Inr (y2, r\<lparr>m_x_buf := x2, m_y_buf := y2\<rparr>))"
proof (intro impI conjI)
  assume nb: "\<not> m_binary_mode r"
  show "r' = r\<lparr>m_x_buf := x, m_y_buf := y\<rparr>" if "ReLU_Forward ops r x True = Inr (y, r')"
    using nb that by (rule ReLU_Forward_training)
  show "r' = r" if "ReLU_Forward ops r x False = Inr (y, r')"
    using nb that by (rule ReLU_Forward_inference)
  assume two: "ReLU_Forward ops r x1 train1 = Inr (y1, r1) \<and> ReLU_Forward ops r1 x2 True = Inr (y2, r2)"
  then have nb1: "\<not> m_binary_mode r1"
    using nb ReLU_Forward_mode by blast
  have r2: "r2 = r1\<lparr>m_x_buf := x2, m_y_buf := y2\<rparr>"
    using nb1 two ReLU_Forward_training by blast
  have r1: "r1 = r \<or> r1 = r\<lparr>m_x_buf := x1, m_y_buf := y1\<rparr>"
    using nb two ReLU_Forward_training[of r ops x1 y1 r1] ReLU_Forward_inference[of r ops x1 y1 r1]
    by (cases train1) auto
  from r1 r2 have eq: "r2 = r\<lparr>m_x_buf := x2, m_y_buf := y2\<rparr>"
    by auto
  then show "ReLU_Backward ops r2 dy = ReLU_Backward ops (r\<lparr>m_x_buf := x2, m_y_buf := y2\<rparr>) dy"
    by simp
  from ReLU_Forward_output[OF nb1 nb, of ops x2 True y2 r2 True] two
  obtain q' where q: "ReLU_Forward ops r x2 True = Inr (y2, q')"
    by blast
  with nb have "q' = r\<lparr>m_x_buf := x2, m_y_buf := y2\<rparr>"
    by (rule ReLU_Forward_training)
  with q show "ReLU_Forward ops r x2 True = Inr (y2, r\<lparr>m_x_buf := x2, m_y_buf := y2\<rparr>)"
    by simp
qed

theorem ReLU_cache_is_last_training_Forward_witness:
  "ReLU_Forward example_Binarize_ops example_ReLU (example_buf 1) False = Inr (example_buf 1, example_ReLU) \<and>
   ReLU_Forward example_Binarize_ops example_ReLU (example_buf (-1)) True =
     Inr (example_buf 0, example_ReLU\<lparr>m_x_buf := example_buf (-1), m_y_buf := example_buf 0\<rparr>) \<and>
   ReLU_Backward example_Binarize_ops
     (example_ReLU\<lparr>m_x_buf := example_buf (-1), m_y_buf := example_buf 0\<rparr>) (example_buf 5) =
     Inr (example_buf 0, example_ReLU)"
  using ReLU_cache_is_last_training_Forward[of example_ReLU example_Binarize_ops "example_buf 1"
      "example_buf 1" example_ReLU "example_buf 1" False "example_buf 1" example_ReLU
      "example_buf (-1)" "example_buf 0"
      "example_ReLU\<lparr>m_x_buf := example_buf (-1), m_y_buf := example_buf 0\<rparr>" "example_buf 5"]
  by (simp add: example_ReLU_defs)

section \<open>Results on the composite layers\<close>

lemmas example_StochasticLut_defs = example_child_ops_def example_StochasticLut_def
  StochasticLut_GetParameters_def StochasticLut_GetGradients_def StochasticLut_Save_def
  StochasticLut_Load_def StochasticLut_CommandProc_def StochasticLut_Forward_def
  StochasticLut_Backward_def StochasticLut_ForwardNode_def Let_def

lemma example_layer_ops_aligned:
  "list_all2 (\<lambda>p g. g = ''d'' @ p) (GetParameters_m (example_layer_ops names) l)
     (GetGradients_m (example_layer_ops names) l)"
  by (simp add: example_layer_ops_def list_all2_conv_all_nth)

text \<open>
  Claim C6. GetParameters and GetGradients of a composite visit the same children in
  the same order: StochasticLut the LUT and, in both collections exactly when
  \<open>m_bn_enable\<close> is set, the batch normalization; SparseLutN the LUT and the batch
  normalization; BinaryModulation the expander, the inner layer and the reducer. So
  whenever each visited child returns its gradients entry by entry beside its
  parameters (any relation \<open>R\<close> between a parameter and its gradient), the composite
  does.
\<close>

theorem parameters_and_gradients_are_aligned:
  "(list_all2 R (GetParameters_m lut (m_lut S)) (GetGradients_m lut (m_lut S)) \<and>
    (m_bn_enable S \<longrightarrow> list_all2 R (GetParameters_m bn (m_batch_norm S)) (GetGradients_m bn (m_batch_norm S))) \<longrightarrow>
      list_all2 R (StochasticLut_GetParameters lut bn S) (StochasticLut_GetGradients lut bn S)) \<and>
   StochasticLut_GetParameters lut bn S =
     GetParameters_m lut (m_lut S) @ (if m_bn_enable S then GetParameters_m bn (m_batch_norm S) else []) \<and>
   StochasticLut_GetGradients lut bn S =
     GetGradients_m lut (m_lut S) @ (if m_bn_enable S then GetGradients_m bn (m_batch_norm S) else []) \<and>
   (list_all2 R (parameters nlut (m_state (n_lut N))) (gradients nlut (m_state (n_lut N))) \<and>
    list_all2 R (parameters nbn (m_state (n_batch_norm N))) (gradients nbn (m_state (n_batch_norm N))) \<longrightarrow>
      list_all2 R (SparseLutN_GetParameters nlut nbn N) (SparseLutN_GetGradients nlut nbn N)) \<and>
   (list_all2 R (GetParameters_m real2bin (m_real2bin B)) (GetGradients_m real2bin (m_real2bin B)) \<and>
    list_all2 R (GetParameters_m inner (m_layer B)) (GetGradients_m inner (m_layer B)) \<and>
    list_all2 R (GetParameters_m bin2real (m_bin2real B)) (GetGradients_m bin2real (m_bin2real B)) \<longrightarrow>
      list_all2 R (BinaryModulation_GetParameters real2bin inner bin2real B)
        (BinaryModulation_GetGradients real2bin inner bin2real B))"
  by (auto simp: StochasticLut_GetParameters_def StochasticLut_GetGradients_def
      SparseLutN_GetParameters_def SparseLutN_GetGradients_def
      BinaryModulation_GetParameters_def BinaryModulation_GetGradients_def
      intro: list_all2_appendI)

theorem parameters_and_gradients_are_aligned_witness:
  "StochasticLut_GetParameters (example_child_ops [''W'']) (example_child_ops [''gamma'', ''beta''])
     (example_StochasticLut True) = [''W'', ''gamma'', ''beta''] \<and>
   StochasticLut_GetGradients (example_child_ops [''W'']) (example_child_ops [''gamma'', ''beta''])
     (example_StochasticLut True) = [''dW'', ''dgamma'', ''dbeta''] \<and>
   list_all2 (\<lambda>p g. g = ''d'' @ p)
     (StochasticLut_GetParameters (example_child_ops [''W'']) (example_child_ops [''gamma'', ''beta''])
        (example_StochasticLut True))
     (StochasticLut_GetGradients (example_child_ops [''W'']) (example_child_ops [''gamma'', ''beta''])
        (example_StochasticLut True)) \<and>
   list_all2 (\<lambda>p g. g = ''d'' @ p)
     (SparseLutN_GetParameters example_sub_ops example_sub_ops (example_SparseLutN True))
     (SparseLutN_GetGradients example_sub_ops example_sub_ops (example_SparseLutN True)) \<and>
   list_all2 (\<lambda>p g. g = ''d'' @ p)
     (BinaryModulation_GetParameters
        (example_layer_ops [] :: ((string, real) RealToBinary, nat, string) layer_ops)
        (example_layer_ops [''W'']) (example_layer_ops [''gain''])
        (BinaryModulation_Create example_create))
     (BinaryModulation_GetGradients
        (example_layer_ops [] :: ((string, real) RealToBinary, nat, string) layer_ops)
        (example_layer_ops [''W'']) (example_layer_ops [''gain''])
        (BinaryModulation_Create example_create))"
proof -
  note aligned = parameters_and_gradients_are_aligned[where R = "\<lambda>p g. g = ''d'' @ p"
      and lut = "example_child_ops [''W'']" and S = "example_StochasticLut True"
      and bn = "example_child_ops [''gamma'', ''beta'']"
      and nlut = example_sub_ops and N = "example_SparseLutN True" and nbn = example_sub_ops
      and real2bin = "example_layer_ops [] :: ((string, real) RealToBinary, nat, string) layer_ops"
      and B = "BinaryModulation_Create example_create"
      and inner = "example_layer_ops [''W'']" and bin2real = "example_layer_ops [''gain'']"]
  have children:
    "list_all2 (\<lambda>p g. g = ''d'' @ p) (GetParameters_m (example_child_ops names) l)
       (GetGradients_m (example_child_ops names) l)"
    "list_all2 (\<lambda>p g. g = ''d'' @ p) (parameters example_sub_ops w) (gradients example_sub_ops w)"
    "list_all2 (\<lambda>p g. g = ''d'' @ p) (GetParameters_m (example_layer_ops names) l')
       (GetGradients_m (example_layer_ops names) l')"
    for names l w l'
    by (simp_all add: example_child_ops_def example_sub_ops_def example_layer_ops_def
        list_all2_conv_all_nth)
  have listed:
    "StochasticLut_GetParameters (example_child_ops [''W'']) (example_child_ops [''gamma'', ''beta''])
       (example_StochasticLut True) = [''W'', ''gamma'', ''beta'']"
    "StochasticLut_GetGradients (example_child_ops [''W'']) (example_child_ops [''gamma'', ''beta''])
       (example_StochasticLut True) = [''dW'', ''dgamma'', ''dbeta'']"
    by (simp_all add: example_StochasticLut_defs)
  have c1: "list_all2 (\<lambda>p g. g = ''d'' @ p)
     (StochasticLut_GetParameters (example_child_ops [''W'']) (example_child_ops [''gamma'', ''beta''])
        (example_StochasticLut True))
     (StochasticLut_GetGradients (example_child_ops [''W'']) (example_child_ops [''gamma'', ''beta''])
        (example_StochasticLut True))"
    using aligned children(1) by blast
  have c2: "list_all2 (\<lambda>p g. g = ''d'' @ p)
     (SparseLutN_GetParameters example_sub_ops example_sub_ops (example_SparseLutN True))
     (SparseLutN_GetGradients example_sub_ops example_sub_ops (example_SparseLutN True))"
    using aligned children(2) by blast
  have c3: "list_all2 (\<lambda>p g. g = ''d'' @ p)
     (BinaryModulation_GetParameters
        (example_layer_ops [] :: ((string, real) RealToBinary, nat, string) layer_ops)
        (example_layer_ops [''W'']) (example_layer_ops [''gain''])
        (BinaryModulation_Create example_create))
     (BinaryModulation_GetGradients
        (example_layer_ops [] :: ((string, real) RealToBinary, nat, string) layer_ops)
        (example_layer_ops [''W'']) (example_layer_ops [''gain''])
        (BinaryModulation_Create example_create))"
    by (rule aligned[THEN conjunct2, THEN conjunct2, THEN conjunct2, THEN conjunct2, THEN mp])
      (intro conjI example_layer_ops_aligned)
  from c1 c2 c3 listed show ?thesis
    by simp
qed

text \<open>
  Claim C10. Save of a StochasticLut writes the LUT and then the batch normalization,
  and Load reads both in that order, whatever \<open>m_bn_enable\<close> is: the command
  \<^verbatim>\<open>batch_normalization\<close> changes neither what Save writes nor how much Load reads.
  With \<open>m_bn_enable\<close> off, Forward, Backward, ForwardNode, GetParameters and
  GetGradients use the LUT only.
\<close>

theorem Save_and_Load_ignore_bn_enable:
  "StochasticLut_Save lut bn S os = Save_m bn (m_batch_norm S) (Save_m lut (m_lut S) os) \<and>
   StochasticLut_Save lut bn (StochasticLut_CommandProc EvalBool args S) os = StochasticLut_Save lut bn S os \<and>
   StochasticLut_Load lut bn S bytes =
     (S\<lparr>m_lut := fst (Load_m lut (m_lut S) bytes),
        m_batch_norm := fst (Load_m bn (m_batch_norm S) (snd (Load_m lut (m_lut S) bytes)))\<rparr>,
      snd (Load_m bn (m_batch_norm S) (snd (Load_m lut (m_lut S) bytes)))) \<and>
   snd (StochasticLut_Load lut bn (StochasticLut_CommandProc EvalBool args S) bytes) =
     snd (StochasticLut_Load lut bn S bytes) \<and>
   (\<not> m_bn_enable S \<longrightarrow>
      StochasticLut_Forward lut bn S x train =
        bind_res (Forward_m lut (m_lut S) x train) (\<lambda>(y, lut'). Inr (y, S\<lparr>m_lut := lut'\<rparr>)) \<and>
      StochasticLut_Backward lut bn S dy =
        bind_res (Backward_m lut (m_lut S) dy) (\<lambda>(dx, lut'). Inr (dx, S\<lparr>m_lut := lut'\<rparr>)) \<and>
      StochasticLut_ForwardNode lut bn (length x_vec) S node x_vec =
        Inr (ForwardNode_m lut (m_lut S) node x_vec) \<and>
      StochasticLut_GetParameters lut bn S = GetParameters_m lut (m_lut S) \<and>
      StochasticLut_GetGradients lut bn S = GetGradients_m lut (m_lut S))"
  by (auto simp: StochasticLut_Save_def StochasticLut_Load_def StochasticLut_CommandProc_def
      StochasticLut_Forward_def StochasticLut_Backward_def StochasticLut_ForwardNode_def
      StochasticLut_GetParameters_def StochasticLut_GetGradients_def Let_def
      split: prod.splits)


theorem Save_and_Load_ignore_bn_enable_witness:
  "StochasticLut_Save (example_child_ops [''W'']) (example_child_ops [''gamma''])
     (example_StochasticLut False) [] = [1, 2] \<and>
   StochasticLut_Save (example_child_ops [''W'']) (example_child_ops [''gamma''])
     (example_StochasticLut True) [] = [1, 2] \<and>
   StochasticLut_Load (example_child_ops [''W'']) (example_child_ops [''gamma''])
     (example_StochasticLut False) [5, 6, 7] =
     (\<lparr>m_lut = 5, m_batch_norm = 6, m_bn_enable = False\<rparr>, [7]) \<and>
   StochasticLut_Forward (example_child_ops [''W'']) (example_child_ops [''gamma''])
     (example_StochasticLut False) 3 True = Inr (6, example_StochasticLut False) \<and>
   StochasticLut_Forward (example_child_ops [''W'']) (example_child_ops [''gamma''])
     (example_StochasticLut True) 3 True = Inr (12, example_StochasticLut True) \<and>
   StochasticLut_GetParameters (example_child_ops [''W'']) (example_child_ops [''gamma''])
     (example_StochasticLut False) = [''W'']"
  using Save_and_Load_ignore_bn_enable[of "example_child_ops [''W'']" "example_child_ops [''gamma'']"
      "example_StochasticLut False" "[]" "\<lambda>text. text = ''true''"
      "[''batch_normalization'', ''true'']" "[5, 6, 7]" 3 True 1 "[1, 2]" 0]
  by (simp add: example_StochasticLut_defs)

lemmas SparseLutN_defs = SparseLutN_Forward_def SparseLutN_Backward_def sub_Forward_def
  sub_ReForward_def sub_Backward_def GetFrameBufferX_def SetFrameBufferX_def Let_def

lemmas example_SparseLutN_defs = SparseLutN_defs example_SparseLutN_def example_sub_ops_def
  scale_buf_def times_buf_def example_buf_def FrameBuffer_empty_def

text \<open>
  Claim C2. For a SparseLutN whose LUT and batch normalization recompute in ReForward
  the output that their training-mode Forward gave for the same input, a
  training-mode Forward followed by Backward returns the same input gradient with
  memory saving on and off. With memory saving on, Forward leaves only the LUT's
  input kept, and Backward is the reverse chain of the three gradients on the
  buffers recomputed from that input, first by the LUT, then by the batch
  normalization. Buffers are compared exactly: rounding is not modelled.
\<close>

theorem memory_saving_gives_the_same_gradient:
  "((\<forall>p x. recompute lut (snd (compute lut p x True)) x = fst (compute lut p x True)) \<and>
    (\<forall>p x. recompute bn (snd (compute bn p x True)) x = fst (compute bn p x True)) \<longrightarrow>
      fst (SparseLutN_Backward lut bn act
             (snd (SparseLutN_Forward lut bn act (S\<lparr>m_memory_saving := True\<rparr>) x True)) dy) =
      fst (SparseLutN_Backward lut bn act
             (snd (SparseLutN_Forward lut bn act (S\<lparr>m_memory_saving := False\<rparr>) x True)) dy)) \<and>
   (let S1 = snd (SparseLutN_Forward lut bn act (S\<lparr>m_memory_saving := True\<rparr>) x True);
        x1 = recompute lut (m_state (n_lut S1)) x;
        x2 = recompute bn (m_state (n_batch_norm S1)) x1;
        dy1 = fst (gradient act (m_state (n_activation S1)) x2 dy);
        dy2 = fst (gradient bn (m_state (n_batch_norm S1)) x1 dy1)
    in GetFrameBufferX (n_lut S1) = x \<and>
       GetFrameBufferX (n_batch_norm S1) = FrameBuffer_empty \<and>
       GetFrameBufferX (n_activation S1) = FrameBuffer_empty \<and>
       fst (SparseLutN_Backward lut bn act S1 dy) = fst (gradient lut (m_state (n_lut S1)) x dy2))"
proof (intro conjI impI)
  assume h: "(\<forall>p x. recompute lut (snd (compute lut p x True)) x = fst (compute lut p x True)) \<and>
    (\<forall>p x. recompute bn (snd (compute bn p x True)) x = fst (compute bn p x True))"
  obtain y1 p1 where c1: "compute lut (m_state (n_lut S)) x True = (y1, p1)"
    by (cases "compute lut (m_state (n_lut S)) x True")
  obtain y2 p2 where c2: "compute bn (m_state (n_batch_norm S)) y1 True = (y2, p2)"
    by (cases "compute bn (m_state (n_batch_norm S)) y1 True")
  obtain y3 p3 where c3: "compute act (m_state (n_activation S)) y2 True = (y3, p3)"
    by (cases "compute act (m_state (n_activation S)) y2 True")
  from h c1 have r1: "recompute lut p1 x = y1"
    by (metis fst_conv snd_conv)
  from h c2 have r2: "recompute bn p2 y1 = y2"
    by (metis fst_conv snd_conv)
  show "fst (SparseLutN_Backward lut bn act
             (snd (SparseLutN_Forward lut bn act (S\<lparr>m_memory_saving := True\<rparr>) x True)) dy) =
      fst (SparseLutN_Backward lut bn act
             (snd (SparseLutN_Forward lut bn act (S\<lparr>m_memory_saving := False\<rparr>) x True)) dy)"
    by (simp add: SparseLutN_defs c1 c2 c3 r1 r2 split: prod.splits)
next
  show "let S1 = snd (SparseLutN_Forward lut bn act (S\<lparr>m_memory_saving := True\<rparr>) x True);
        x1 = recompute lut (m_state (n_lut S1)) x;
        x2 = recompute bn (m_state (n_batch_norm S1)) x1;
        dy1 = fst (gradient act (m_state (n_activation S1)) x2 dy);
        dy2 = fst (gradient bn (m_state (n_batch_norm S1)) x1 dy1)
    in GetFrameBufferX (n_lut S1) = x \<and>
       GetFrameBufferX (n_batch_norm S1) = FrameBuffer_empty \<and>
       GetFrameBufferX (n_activation S1) = FrameBuffer_empty \<and>
       fst (SparseLutN_Backward lut bn act S1 dy) = fst (gradient lut (m_state (n_lut S1)) x dy2)"
    by (simp add: SparseLutN_defs split: prod.splits)
qed

theorem memory_saving_gives_the_same_gradient_witness:
  "fst (SparseLutN_Backward example_sub_ops example_sub_ops example_sub_ops
          (snd (SparseLutN_Forward example_sub_ops example_sub_ops example_sub_ops
                 (example_SparseLutN True) (example_buf 1) True)) (example_buf 5)) = example_buf 360 \<and>
   fst (SparseLutN_Backward example_sub_ops example_sub_ops example_sub_ops
          (snd (SparseLutN_Forward example_sub_ops example_sub_ops example_sub_ops
                 (example_SparseLutN False) (example_buf 1) True)) (example_buf 5)) = example_buf 360"
  using memory_saving_gives_the_same_gradient[of example_sub_ops example_sub_ops example_sub_ops
      "example_SparseLutN False" "example_buf 1" "example_buf 5"]
  by (simp add: example_SparseLutN_defs)

lemma BinaryModulation_switch_settings:
  "framewise (m_real2bin (BinaryModulation_switch S train)) = framewise (m_real2bin S) \<and>
   input_range_lo (m_real2bin (BinaryModulation_switch S train)) = input_range_lo (m_real2bin S) \<and>
   input_range_hi (m_real2bin (BinaryModulation_switch S train)) = input_range_hi (m_real2bin S) \<and>
   m_training (BinaryModulation_switch S train) = train \<and>
   (m_training S \<noteq> train \<longrightarrow>
      modulation_size (m_real2bin (BinaryModulation_switch S train)) =
        modulation_size (if train then m_training_create S else m_inference_create S) \<and>
      value_generator (m_real2bin (BinaryModulation_switch S train)) =
        value_generator (if train then m_training_create S else m_inference_create S) \<and>
      b2r_modulation_size (m_bin2real (BinaryModulation_switch S train)) =
        modulation_size (if train then m_training_create S else m_inference_create S))"
  by (auto simp: BinaryModulation_switch_def RealToBinary_SetModulationSize_def
      RealToBinary_SetValueGenerator_def BinaryToReal_SetModulationSize_def)

lemmas example_BinaryModulation_defs = BinaryModulation_Forward_def BinaryModulation_switch_def
  BinaryModulation_Create_def RealToBinary_Create_def BinaryToReal_Create_def
  RealToBinary_SetModulationSize_def RealToBinary_SetValueGenerator_def
  BinaryToReal_SetModulationSize_def example_create_def example_layer_ops_def Let_def

text \<open>
  Claim C3, at a concrete input: a BinaryModulation created with training settings
  (size 1, framewise, range 0 to 1) and inference settings (size 4, not framewise,
  range -1 to 1), and a first Forward in inference mode. The expander gets the
  inference modulation size and value generator, but keeps the framewise flag and the
  input range of the training settings.
\<close>

theorem inference_Forward_keeps_training_framewise_and_range:
  "map_sum id (\<lambda>(y, S). (m_training S, m_real2bin S, m_inference_create S))
     (BinaryModulation_Forward (example_layer_ops []) (example_layer_ops []) (example_layer_ops [])
        (BinaryModulation_Create example_create) (7::nat) False) =
   Inr (False,
        \<lparr>modulation_size = 4, value_generator = ''inference generator'',
         framewise = True, input_range_lo = 0, input_range_hi = 1\<rparr>,
        \<lparr>modulation_size = 4, value_generator = ''inference generator'',
         framewise = False, input_range_lo = - 1, input_range_hi = 1\<rparr>)"
  by (simp add: example_BinaryModulation_defs)

section \<open>Results on the random strategy\<close>

lemma draw_sets_snoc:
  "draw_sets ops ss (ns @ [n]) =
     (let (sets, ss1) = draw_sets ops ss ns;
          (random_set, ss2) = ss_GetRandomSet ops ss1 n
      in (sets @ [random_set], ss2))"
  by (induction ns arbitrary: ss) (auto split: prod.splits)

lemma length_draw_sets: "draw_sets ops ss ns = (sets, ss') \<Longrightarrow> length sets = length ns"
  by (induction ns arbitrary: ss sets) (auto split: prod.splits)

text \<open>The innermost loop of pointwise, depthwise and random: one row is written.\<close>

lemma write_row_Inr:
  assumes body: "\<And>i L2. body i L2 = bind_res (h i) (\<lambda>v. Inr (SetNodeInput L2 node i v))"
    and all: "\<forall>i<m. h i = Inr (g i)"
  shows "for_each [0..<m] body L =
     Inr (L\<lparr>m_node_input := (\<lambda>n i. if n = node \<and> i < m then g i else m_node_input L n i)\<rparr>)"
  using all
proof (induction m)
  case 0
  show ?case by simp
next
  case (Suc m)
  then show ?case
    by (simp add: for_each_snoc body SetNodeInput_def)
      (rule node_input_update_cong, auto simp: less_Suc_eq)
qed

lemma write_row_returns:
  assumes body: "\<And>i L2. body i L2 = bind_res (h i) (\<lambda>v. Inr (SetNodeInput L2 node i v))"
    and run: "for_each [0..<m] body L = Inr L'"
  shows "\<forall>i<m. \<exists>v. h i = Inr v"
  using run
proof (induction m arbitrary: L')
  case 0
  show ?case by simp
next
  case (Suc m)
  from Suc.prems obtain L1 where 1: "for_each [0..<m] body L = Inr L1" and 2: "body m L1 = Inr L'"
    by (auto simp: for_each_snoc bind_res_def split: sum.splits)
  from 2 obtain v where "h m = Inr v"
    by (auto simp: body bind_res_def split: sum.splits)
  with Suc.IH[OF 1] show ?case
    by (auto simp: less_Suc_eq)
qed

lemma write_row_result:
  assumes body: "\<And>i L2. body i L2 = bind_res (h i) (\<lambda>v. Inr (SetNodeInput L2 node i v))"
    and run: "for_each [0..<m] body L = Inr L'"
  shows "(\<forall>i<m. h i = Inr (projr (h i))) \<and>
     L' = L\<lparr>m_node_input := (\<lambda>n i. if n = node \<and> i < m then projr (h i) else m_node_input L n i)\<rparr>"
proof -
  from write_row_returns[OF body run] have all: "\<forall>i<m. h i = Inr (projr (h i))"
    by auto
  from write_row_Inr[of body h node m "\<lambda>i. projr (h i)" L, OF body all] run
  show ?thesis using all by simp
qed


lemma write_random_row:
  assumes body: "\<And>i L2. body i L2 =
      bind_res (at_index random_set i) (\<lambda>v. Inr (SetNodeInput L2 node i v))"
  shows "for_each [0..<m] body L =
     (if m \<le> length random_set
      then Inr (L\<lparr>m_node_input := (\<lambda>n i. if n = node \<and> i < m then random_set ! i
                                       else m_node_input L n i)\<rparr>)
      else Inl OutOfRange)"
proof (cases "m \<le> length random_set")
  case True
  have "for_each [0..<m] body L =
     Inr (L\<lparr>m_node_input := (\<lambda>n i. if n = node \<and> i < m then random_set ! i
                                       else m_node_input L n i)\<rparr>)"
    by (rule write_row_Inr[where h = "at_index random_set"]) (use True in \<open>auto simp: body at_index_def\<close>)
  with True show ?thesis by simp
next
  case False
  have "for_each [0..<m] body L \<noteq> Inr L'" for L'
  proof
    assume "for_each [0..<m] body L = Inr L'"
    from write_row_returns[where h = "at_index random_set", OF body this] False
    show False
      by (auto simp: at_index_def not_le split: if_splits)
  qed
  moreover have "for_each [0..<k] body L1 = Inl e \<Longrightarrow> e = OutOfRange" for k L1 e
  proof (induction k arbitrary: e)
    case 0
    then show ?case by simp
  next
    case (Suc k)
    from Suc.prems have run: "bind_res (for_each [0..<k] body L1) (body k) = Inl e"
      by (simp add: for_each_snoc)
    show ?case
    proof (cases "for_each [0..<k] body L1")
      case (Inl e')
      with run Suc.IH show ?thesis by simp
    next
      case (Inr L2)
      with run have "body k L2 = Inl e" by simp
      then show ?thesis
        by (simp add: body at_index_def bind_res_def split: if_splits)
    qed
  qed
  ultimately show ?thesis
    using False by (cases "for_each [0..<m] body L") auto
qed

lemma random_outer:
  assumes body: "\<And>node ss L1. body node (ss, L1) =
      (let input_size = GetNodeInputSize L1 node;
           (random_set, ss') = ss_GetRandomSet ops ss input_size
       in if input_size \<le> length random_set
          then Inr (ss', L1\<lparr>m_node_input := (\<lambda>n i. if n = node \<and> i < input_size then random_set ! i
                                       else m_node_input L1 n i)\<rparr>)
          else Inl OutOfRange)"
  shows "for_each [0..<k] body (ss, L) =
     (case draw_sets ops ss (map (GetNodeInputSize L) [0..<k]) of
        (sets, ss_k) \<Rightarrow>
          if \<forall>n<k. GetNodeInputSize L n \<le> length (sets ! n)
          then Inr (ss_k, L\<lparr>m_node_input := (\<lambda>n i. if n < k \<and> i < GetNodeInputSize L n
                                                  then sets ! n ! i else m_node_input L n i)\<rparr>)
          else Inl OutOfRange)"
proof (induction k)
  case 0
  show ?case by simp
next
  case (Suc k)
  obtain sets ss_k where d: "draw_sets ops ss (map (GetNodeInputSize L) [0..<k]) = (sets, ss_k)"
    by (cases "draw_sets ops ss (map (GetNodeInputSize L) [0..<k])")
  then have len: "length sets = k"
    using length_draw_sets by fastforce
  obtain rs ss' where g: "ss_GetRandomSet ops ss_k (GetNodeInputSize L k) = (rs, ss')"
    by (cases "ss_GetRandomSet ops ss_k (GetNodeInputSize L k)")
  have nth: "\<And>n. n < k \<Longrightarrow> (sets @ [rs]) ! n = sets ! n" "(sets @ [rs]) ! k = rs"
    using len by (simp_all add: nth_append)
  have step: "for_each [0..<Suc k] body (ss, L) = bind_res (for_each [0..<k] body (ss, L)) (body k)"
    by (simp add: for_each_snoc)
  have draw: "draw_sets ops ss (map (GetNodeInputSize L) [0..<Suc k]) = (sets @ [rs], ss')"
    by (simp add: draw_sets_snoc d g)
  show ?case
  proof (cases "\<forall>n<k. GetNodeInputSize L n \<le> length (sets ! n)")
    case False
    then have "\<not> (\<forall>n<Suc k. GetNodeInputSize L n \<le> length ((sets @ [rs]) ! n))"
      using nth by (auto simp: less_Suc_eq)
    with False show ?thesis
      unfolding step Suc draw d by auto
  next
    case True
    show ?thesis
    proof (cases "GetNodeInputSize L k \<le> length rs")
      case False
      then have "\<not> (\<forall>n<Suc k. GetNodeInputSize L n \<le> length ((sets @ [rs]) ! n))"
        using nth by (auto simp: less_Suc_eq)
      with True False show ?thesis
        unfolding step Suc draw d by (auto simp add: body g)
    next
      case k: True
      have all: "\<forall>n<Suc k. GetNodeInputSize L n \<le> length ((sets @ [rs]) ! n)"
        using True k nth by (auto simp: less_Suc_eq)
      have "L\<lparr>m_node_input := (\<lambda>n i. if n < k \<and> i < GetNodeInputSize L n
                                                  then sets ! n ! i else m_node_input L n i)\<rparr>
             \<lparr>m_node_input := (\<lambda>n i. if n = k \<and> i < GetNodeInputSize L k then rs ! i
                  else m_node_input (L\<lparr>m_node_input := (\<lambda>n i. if n < k \<and> i < GetNodeInputSize L n
                                                  then sets ! n ! i else m_node_input L n i)\<rparr>) n i)\<rparr> =
            L\<lparr>m_node_input := (\<lambda>n i. if n < Suc k \<and> i < GetNodeInputSize L n
                                                  then (sets @ [rs]) ! n ! i else m_node_input L n i)\<rparr>"
        by simp (rule node_input_update_cong, use nth in \<open>auto simp: less_Suc_eq\<close>)
      with True k all show ?thesis
        unfolding step Suc draw d by (auto simp add: body g)
    qed
  qed
qed


lemma random_connect_closed:
  "random_connect ops seed L =
     (if \<forall>n<GetShapeSize (GetOutputShape L).
           GetNodeInputSize L n \<le> length (random_table ops seed L ! n)
      then Inr (L\<lparr>m_node_input := (\<lambda>n i.
                  if n < GetShapeSize (GetOutputShape L) \<and> i < GetNodeInputSize L n
                  then random_table ops seed L ! n ! i else m_node_input L n i)\<rparr>)
      else Inl OutOfRange)"
proof -
  let ?body = "\<lambda>node (ss, L1).
              let input_size = GetNodeInputSize L1 node;
                  (random_set, ss') = ss_GetRandomSet ops ss input_size
              in bind_res
                   (for_each [0..<input_size] (\<lambda>i L2.
                      bind_res (at_index random_set i) (\<lambda>input_node.
                        Inr (SetNodeInput L2 node i input_node)))
                      L1)
                   (\<lambda>L2. Inr (ss', L2))"
  have body: "?body node (ss, L1) =
      (let input_size = GetNodeInputSize L1 node;
           (random_set, ss') = ss_GetRandomSet ops ss input_size
       in if input_size \<le> length random_set
          then Inr (ss', L1\<lparr>m_node_input := (\<lambda>n i. if n = node \<and> i < input_size then random_set ! i
                                       else m_node_input L1 n i)\<rparr>)
          else Inl OutOfRange)" for node ss L1
    by (simp add: Let_def write_random_row split: prod.splits)
  note outer = random_outer[of ?body ops, OF body, unfolded Let_def]
  obtain sets ss' where d:
    "draw_sets ops (ss_new ops (GetShapeSize (GetInputShape L)) seed)
       (map (GetNodeInputSize L) [0..<GetShapeSize (GetOutputShape L)]) = (sets, ss')"
    by (cases "draw_sets ops (ss_new ops (GetShapeSize (GetInputShape L)) seed)
       (map (GetNodeInputSize L) [0..<GetShapeSize (GetOutputShape L)])")
  show ?thesis
    unfolding random_connect_def Let_def outer random_table_def d
    by (auto intro!: node_input_update_cong)
qed

lemma connection_table_update:
  assumes "GetShapeSize (GetOutputShape L) = osz" and "GetNodeInputSize L = fanin"
  shows "connection_table (L\<lparr>m_node_input := (\<lambda>n i.
        if n < osz \<and> i < fanin n then t n i else m_node_input L n i)\<rparr>) =
   map (\<lambda>n. map (t n) [0..<fanin n]) [0..<osz]"
  using assms
  by (auto simp add: connection_table_def node_inputs_def GetNodeInput_def GetOutputShape_def
      GetNodeInputSize_def)

lemma InitializeNodeInput_random:
  "InitializeNodeInput fuel ops seed ''random'' L = Some (random_connect ops seed L)"
  "InitializeNodeInput fuel ops seed [] L = Some (random_connect ops seed L)"
  by (simp_all add: InitializeNodeInput_def SplitString_def)

text \<open>
  Claim C8. Two runs of InitializeNodeInput with the random strategy (named, or chosen
  by an empty connection string) and the same seed, on layers of the same shapes and
  fan-ins, give the same connection table, whatever the tables held before: each run
  writes every slot of every output node from the sets drawn, and these depend on the
  seed, the input node count and the fan-ins only. (That \<^verbatim>\<open>ShuffleSet\<close> draws the
  same sets from the same seed is the reading of it as a function.)
\<close>

theorem random_is_a_function_of_the_seed:
  "GetInputShape L1 = GetInputShape L2 \<and> GetOutputShape L1 = GetOutputShape L2 \<and>
   (\<forall>node. GetNodeInputSize L1 node = GetNodeInputSize L2 node) \<longrightarrow>
     map_option (map_sum id connection_table) (InitializeNodeInput fuel1 ops seed ''random'' L1) =
     map_option (map_sum id connection_table) (InitializeNodeInput fuel2 ops seed ''random'' L2) \<and>
     map_option (map_sum id connection_table) (InitializeNodeInput fuel1 ops seed [] L1) =
     map_option (map_sum id connection_table) (InitializeNodeInput fuel2 ops seed [] L2)"
proof
  assume same: "GetInputShape L1 = GetInputShape L2 \<and> GetOutputShape L1 = GetOutputShape L2 \<and>
   (\<forall>node. GetNodeInputSize L1 node = GetNodeInputSize L2 node)"
  then have fanin: "GetNodeInputSize L1 = GetNodeInputSize L2"
    by (simp add: fun_eq_iff)
  with same have table: "random_table ops seed L1 = random_table ops seed L2"
    by (simp add: random_table_def)
  have "map_sum id connection_table (random_connect ops seed L1) =
        map_sum id connection_table (random_connect ops seed L2)"
    using same
    by (simp add: random_connect_closed connection_table_update table fanin)
  then show "map_option (map_sum id connection_table) (InitializeNodeInput fuel1 ops seed ''random'' L1) =
     map_option (map_sum id connection_table) (InitializeNodeInput fuel2 ops seed ''random'' L2) \<and>
     map_option (map_sum id connection_table) (InitializeNodeInput fuel1 ops seed [] L1) =
     map_option (map_sum id connection_table) (InitializeNodeInput fuel2 ops seed [] L2)"
    by (simp add: InitializeNodeInput_random)
qed

theorem random_is_a_function_of_the_seed_witness:
  "map_option (map_sum id connection_table)
     (InitializeNodeInput 0 example_random_ops 1 ''random'' (example_SparseLayer [6] [3] 2 0)) =
     Some (Inr [[1, 2], [3, 4], [5, 0]]) \<and>
   map_option (map_sum id connection_table)
     (InitializeNodeInput 0 example_random_ops 1 ''random'' (example_SparseLayer [6] [3] 2 9)) =
     Some (Inr [[1, 2], [3, 4], [5, 0]])"
proof -
  have first: "map_option (map_sum id connection_table)
     (InitializeNodeInput 0 example_random_ops 1 ''random'' (example_SparseLayer [6] [3] 2 0)) =
     Some (Inr [[1, 2], [3, 4], [5, 0]])"
    by code_simp
  have same: "GetInputShape (example_SparseLayer [6] [3] 2 0) = GetInputShape (example_SparseLayer [6] [3] 2 9) \<and>
     GetOutputShape (example_SparseLayer [6] [3] 2 0) = GetOutputShape (example_SparseLayer [6] [3] 2 9) \<and>
     (\<forall>node. GetNodeInputSize (example_SparseLayer [6] [3] 2 0) node =
             GetNodeInputSize (example_SparseLayer [6] [3] 2 9) node)"
    by (simp add: example_SparseLayer_def GetInputShape_def GetOutputShape_def GetNodeInputSize_def)
  from random_is_a_function_of_the_seed[of "example_SparseLayer [6] [3] 2 0"
      "example_SparseLayer [6] [3] 2 9" 0 example_random_ops 1 0] same first
  show ?thesis
    by simp
qed

section \<open>Results on the validity of the connection table\<close>

lemma for_each_rows:
  assumes "for_each xs body s = Inr s'" and "G s"
    and "\<And>x t t'. x \<in> set xs \<Longrightarrow> G t \<Longrightarrow> body x t = Inr t' \<Longrightarrow>
           G t' \<and> (\<forall>p. Q p t \<longrightarrow> Q p t') \<and> (\<forall>p\<in>F x. Q p t')"
  shows "G s' \<and> (\<forall>p. Q p s \<longrightarrow> Q p s') \<and> (\<forall>x\<in>set xs. \<forall>p\<in>F x. Q p s')"
  using assms
proof (induction xs arbitrary: s)
  case Nil
  then show ?case by simp
next
  case (Cons x xs)
  from Cons.prems(1) obtain t where t: "body x s = Inr t" and rest: "for_each xs body t = Inr s'"
    by (auto simp: bind_res_def split: sum.splits)
  from Cons.prems(3)[of x s t] t Cons.prems(2)
  have 1: "G t" "\<forall>p. Q p s \<longrightarrow> Q p t" "\<forall>p\<in>F x. Q p t"
    by auto
  have "G s' \<and> (\<forall>p. Q p t \<longrightarrow> Q p s') \<and> (\<forall>x\<in>set xs. \<forall>p\<in>F x. Q p s')"
  proof (rule Cons.IH[OF rest 1(1)])
    fix y t1 t2
    assume "y \<in> set xs" "G t1" "body y t1 = Inr t2"
    then show "G t2 \<and> (\<forall>p. Q p t1 \<longrightarrow> Q p t2) \<and> (\<forall>p\<in>F y. Q p t2)"
      using Cons.prems(3)[of y t1 t2] by simp
  qed
  with 1 show ?case
    by auto
qed

lemma same_frame_refl [simp]: "same_frame L L"
  by (simp add: same_frame_def)

lemma same_frame_trans: "same_frame L L1 \<Longrightarrow> same_frame L1 L2 \<Longrightarrow> same_frame L L2"
  by (simp add: same_frame_def)

lemma same_frame_update [simp]: "same_frame L (L\<lparr>m_node_input := t\<rparr>)"
  by (simp add: same_frame_def GetInputShape_def GetOutputShape_def GetNodeInputSize_def fun_eq_iff)

lemma valid_node_inputs_unchanged:
  assumes "same_frame L L'" and "m_node_input L' p = m_node_input L p"
  shows "valid_node_inputs L' p = valid_node_inputs L p"
proof -
  have "GetNodeInput L' p = GetNodeInput L p"
    using assms(2) by (simp add: GetNodeInput_def fun_eq_iff)
  then have "node_inputs L' p = node_inputs L p"
    using assms(1) by (simp add: node_inputs_def same_frame_def)
  then show ?thesis
    using assms(1) by (simp add: valid_node_inputs_def same_frame_def)
qed

text \<open>One row written from a drawn set.\<close>

lemma connect_inputs_result:
  assumes run: "connect_inputs node m f random_set L = Inr L'"
  shows "(\<forall>i<m. i < length random_set \<and> f (random_set ! i) = Inr (projr (f (random_set ! i)))) \<and>
     L' = L\<lparr>m_node_input := (\<lambda>n i. if n = node \<and> i < m then projr (f (random_set ! i))
                                    else m_node_input L n i)\<rparr>"
proof -
  let ?h = "\<lambda>i. bind_res (at_index random_set i) f"
  from write_row_result[where h = ?h and node = node, OF _ run[unfolded connect_inputs_def]]
  have all: "\<forall>i<m. ?h i = Inr (projr (?h i))"
    and L': "L' = L\<lparr>m_node_input := (\<lambda>n i. if n = node \<and> i < m then projr (?h i)
                                    else m_node_input L n i)\<rparr>"
    by auto
  have *: "i < length random_set \<and> f (random_set ! i) = Inr (projr (f (random_set ! i))) \<and>
           projr (?h i) = projr (f (random_set ! i))" if "i < m" for i
    using all[rule_format, OF that]
    by (auto simp: at_index_def bind_res_def split: if_splits sum.splits)
  have "L\<lparr>m_node_input := (\<lambda>n i. if n = node \<and> i < m then projr (?h i) else m_node_input L n i)\<rparr> =
        L\<lparr>m_node_input := (\<lambda>n i. if n = node \<and> i < m then projr (f (random_set ! i))
                                    else m_node_input L n i)\<rparr>"
    by (rule node_input_update_cong) (use * in auto)
  with L' * show ?thesis
    by auto
qed

text \<open>The body shared by the three drawing strategies: draw a set, write the row.\<close>

lemma draw_and_connect:
  assumes contract: "ShuffleSet_contract ops I"
    and inv: "I ss sz"
    and fanin: "GetNodeInputSize L node \<le> sz"
    and draw: "ss_GetRandomSet ops ss (GetNodeInputSize L node) = (random_set, ss')"
    and run: "connect_inputs node (GetNodeInputSize L node) f random_set L = Inr L'"
    and range: "\<And>r v. r < sz \<Longrightarrow> f r = Inr v \<Longrightarrow> v < GetShapeSize (GetInputShape L)"
    and inj: "\<And>r r' v. r < sz \<Longrightarrow> r' < sz \<Longrightarrow> f r = Inr v \<Longrightarrow> f r' = Inr v \<Longrightarrow> r = r'"
  shows "I ss' sz \<and> same_frame L L' \<and> valid_node_inputs L' node \<and>
         (\<forall>p. p \<noteq> node \<longrightarrow> m_node_input L' p = m_node_input L p)"
proof -
  let ?m = "GetNodeInputSize L node"
  from contract inv fanin draw
  have rs: "length random_set = ?m" "distinct random_set" "\<forall>v\<in>set random_set. v < sz"
    and inv': "I ss' sz"
    unfolding ShuffleSet_contract_def by (auto split: prod.splits)
  from connect_inputs_result[OF run]
  have ok: "\<forall>i<?m. f (random_set ! i) = Inr (projr (f (random_set ! i)))"
    and L': "L' = L\<lparr>m_node_input := (\<lambda>n i. if n = node \<and> i < ?m then projr (f (random_set ! i))
                                    else m_node_input L n i)\<rparr>"
    by auto
  have frame: "same_frame L L'"
    by (subst L') simp
  have row: "node_inputs L' node = map (\<lambda>r. projr (f r)) random_set"
  proof -
    have "node_inputs L' node = map (\<lambda>i. projr (f (random_set ! i))) [0..<?m]"
      using frame by (subst L') (simp add: node_inputs_def GetNodeInput_def same_frame_def)
    also have "\<dots> = map (\<lambda>r. projr (f r)) (map ((!) random_set) [0..<length random_set])"
      by (simp add: rs(1))
    finally show ?thesis
      by (simp add: map_nth)
  qed
  have good: "f r = Inr (projr (f r))" if "r \<in> set random_set" for r
    using that ok rs(1) by (auto simp: in_set_conv_nth)
  have in_range: "\<forall>v\<in>set (node_inputs L' node). v < GetShapeSize (GetInputShape L')"
    using frame rs(3) good range by (auto simp: row same_frame_def)
  have "inj_on (\<lambda>r. projr (f r)) (set random_set)"
  proof (rule inj_onI)
    fix r r' assume r: "r \<in> set random_set" "r' \<in> set random_set"
      and eq: "projr (f r) = projr (f r')"
    from good[OF r(1)] good[OF r(2)] eq have "f r = Inr (projr (f r))" "f r' = Inr (projr (f r))"
      by auto
    with r rs(3) inj show "r = r'"
      by blast
  qed
  with rs(2) have dist: "distinct (node_inputs L' node)"
    by (simp add: row distinct_map)
  have len: "length (node_inputs L' node) = GetNodeInputSize L' node"
    by (simp add: node_inputs_def)
  have others: "\<forall>p. p \<noteq> node \<longrightarrow> m_node_input L' p = m_node_input L p"
    by (subst L') (simp add: fun_eq_iff)
  from inv' frame in_range dist len others show ?thesis
    by (simp add: valid_node_inputs_def)
qed


text \<open>Three-dimensional shapes.\<close>

lemma GetShapeIndex3: "GetShapeIndex [x, y, c] [w, h, d] = x + w * y + w * h * c"
  by (simp add: GetShapeIndex_def)

lemma GetShapeSize3: "GetShapeSize [w, h, d] = w * h * d"
  by simp

lemma shape3: "length shape = 3 \<Longrightarrow> shape = [shape ! 0, shape ! 1, shape ! 2]"
  by (cases shape; cases "tl shape"; cases "tl (tl shape)") auto

lemma index2_less:
  assumes "x < w" "y < h"
  shows "x + w * y < w * (h::nat)"
proof -
  have "x + w * y < w + w * y" using assms by simp
  also have "\<dots> = w * Suc y" by simp
  also have "\<dots> \<le> w * h" using assms by (intro mult_le_mono2) simp
  finally show ?thesis .
qed

lemma index3_less:
  assumes "x < w" "y < h" "c < d"
  shows "x + w * y + w * h * c < w * (h * (d::nat))"
  using index2_less[of "x + w * y" "w * h" c d] index2_less[OF assms(1,2)] assms(3)
  by (simp add: mult.assoc)

lemma index3_cover:
  assumes "node < w * (h * (d::nat))"
  shows "\<exists>x<w. \<exists>y<h. \<exists>c<d. node = x + w * y + w * h * c"
proof -
  from assms have pos: "0 < w" "0 < h"
    by (auto intro: Nat.gr0I)
  let ?x = "node mod w" and ?y = "(node div w) mod h" and ?c = "node div (w * h)"
  have "node < d * (w * h)"
    using assms by (simp add: mult.commute mult.left_commute)
  then have "?c < d"
    by (rule less_mult_imp_div_less)
  moreover have "node = ?x + w * ?y + w * h * ?c"
  proof -
    have "node = ?x + w * (node div w)" by simp
    also have "node div w = ?y + h * ((node div w) div h)" by simp
    also have "(node div w) div h = ?c" by (simp add: div_mult2_eq)
    finally show ?thesis by (simp add: algebra_simps)
  qed
  moreover have "?x < w" "?y < h"
    using pos by simp_all
  ultimately show ?thesis
    by blast
qed

lemma pointwise_channel_step:
  assumes contract: "ShuffleSet_contract ops I"
    and shapes: "GetInputShape L = [w, h, d_in]" "GetOutputShape L = [w, h, d_out]"
    and fanin: "\<forall>node<GetShapeSize (GetOutputShape L). GetNodeInputSize L node \<le> d_in"
    and pos: "x < w" "y < h" "c < d_out"
    and G: "I ss d_in" "same_frame L L2"
    and run: "pointwise_channel ops [w, h, d_in] [w, h, d_out] y x c (ss, L2) = Inr (ss', L3)"
  shows "(I ss' d_in \<and> same_frame L L3) \<and>
         (\<forall>p. valid_node_inputs L2 p \<longrightarrow> valid_node_inputs L3 p) \<and>
         valid_node_inputs L3 (GetShapeIndex [x, y, c] [w, h, d_out])"
proof -
  let ?node = "GetShapeIndex [x, y, c] [w, h, d_out]"
  have node: "?node < GetShapeSize (GetOutputShape L)"
    using pos by (simp add: shapes GetShapeIndex3 index3_less)
  from G(2) have same: "GetNodeInputSize L2 = GetNodeInputSize L" "GetInputShape L2 = GetInputShape L"
    by (simp_all add: same_frame_def)
  from fanin node same have le: "GetNodeInputSize L2 ?node \<le> d_in"
    by simp
  obtain rs ss1 where draw: "ss_GetRandomSet ops ss (GetNodeInputSize L2 ?node) = (rs, ss1)"
    by (cases "ss_GetRandomSet ops ss (GetNodeInputSize L2 ?node)")
  from run draw have conn: "connect_inputs ?node (GetNodeInputSize L2 ?node)
      (\<lambda>ch. Inr (GetShapeIndex [x, y, ch] [w, h, d_in])) rs L2 = Inr L3" and ss': "ss' = ss1"
    by (auto simp: pointwise_channel_def Let_def bind_res_def split: sum.splits)
  have wh: "0 < w * h"
    using pos by (auto intro: Nat.gr0I)
  have "I ss1 d_in \<and> same_frame L2 L3 \<and> valid_node_inputs L3 ?node \<and>
         (\<forall>p. p \<noteq> ?node \<longrightarrow> m_node_input L3 p = m_node_input L2 p)"
  proof (rule draw_and_connect[OF contract G(1) le draw conn])
    fix r v assume "r < d_in" "Inr (GetShapeIndex [x, y, r] [w, h, d_in]) = (Inr v :: error + nat)"
    then show "v < GetShapeSize (GetInputShape L2)"
      using pos by (auto simp: same shapes GetShapeIndex3 index3_less)
  next
    fix r r' v
    assume "Inr (GetShapeIndex [x, y, r] [w, h, d_in]) = (Inr v :: error + nat)"
      "Inr (GetShapeIndex [x, y, r'] [w, h, d_in]) = (Inr v :: error + nat)"
    then show "r = r'"
      using wh by (auto simp: GetShapeIndex3)
  qed
  then have 1: "I ss1 d_in" "same_frame L2 L3" "valid_node_inputs L3 ?node"
    and others: "\<forall>p. p \<noteq> ?node \<longrightarrow> m_node_input L3 p = m_node_input L2 p"
    by auto
  have "valid_node_inputs L3 p" if "valid_node_inputs L2 p" for p
  proof (cases "p = ?node")
    case True
    with 1 show ?thesis by simp
  next
    case False
    with others have "m_node_input L3 p = m_node_input L2 p" by simp
    from valid_node_inputs_unchanged[OF 1(2) this] that show ?thesis by simp
  qed
  with 1 G(2) ss' show ?thesis
    by (auto intro: same_frame_trans)
qed


lemma pointwise_column_step:
  assumes contract: "ShuffleSet_contract ops I"
    and shapes: "GetInputShape L = [w, h, d_in]" "GetOutputShape L = [w, h, d_out]"
    and fanin: "\<forall>node<GetShapeSize (GetOutputShape L). GetNodeInputSize L node \<le> d_in"
    and pos: "x < w" "y < h"
    and G: "same_frame L L1"
    and run: "pointwise_column ops [w, h, d_in] [w, h, d_out] y x (mt, L1) = Inr (mt', L2)"
  shows "same_frame L L2 \<and>
         (\<forall>p. valid_node_inputs L1 p \<longrightarrow> valid_node_inputs L2 p) \<and>
         (\<forall>c<d_out. valid_node_inputs L2 (GetShapeIndex [x, y, c] [w, h, d_out]))"
proof -
  obtain r mt1 where nxt: "mt_next ops mt = (r, mt1)"
    by (cases "mt_next ops mt")
  from run nxt obtain ss' where loop:
    "for_each [0..<d_out] (pointwise_channel ops [w, h, d_in] [w, h, d_out] y x)
       (ss_new ops d_in r, L1) = Inr (ss', L2)"
    by (auto simp: pointwise_column_def Let_def bind_res_def split: sum.splits)
  have init: "I (ss_new ops d_in r) d_in"
    using contract by (simp add: ShuffleSet_contract_def)
  have "(case (ss', L2) of (ss, L2) \<Rightarrow> I ss d_in \<and> same_frame L L2) \<and>
        (\<forall>p. (case (ss_new ops d_in r, L1) of (ss, L2) \<Rightarrow> valid_node_inputs L2 p) \<longrightarrow>
             (case (ss', L2) of (ss, L2) \<Rightarrow> valid_node_inputs L2 p)) \<and>
        (\<forall>c\<in>set [0..<d_out]. \<forall>p\<in>{GetShapeIndex [x, y, c] [w, h, d_out]}.
             (case (ss', L2) of (ss, L2) \<Rightarrow> valid_node_inputs L2 p))"
  proof (rule for_each_rows[OF loop, where G = "\<lambda>(ss, L2). I ss d_in \<and> same_frame L L2"
        and Q = "\<lambda>p (ss, L2). valid_node_inputs L2 p"
        and F = "\<lambda>c. {GetShapeIndex [x, y, c] [w, h, d_out]}"])
    show "case (ss_new ops d_in r, L1) of (ss, L2) \<Rightarrow> I ss d_in \<and> same_frame L L2"
      using init G by simp
  next
    fix c t t'
    assume c: "c \<in> set [0..<d_out]"
      and Gt: "case t of (ss, L2) \<Rightarrow> I ss d_in \<and> same_frame L L2"
      and step: "pointwise_channel ops [w, h, d_in] [w, h, d_out] y x c t = Inr t'"
    obtain ss La where t: "t = (ss, La)" by (cases t)
    obtain ss1 Lb where t': "t' = (ss1, Lb)" by (cases t')
    from c have c': "c < d_out" by simp
    from Gt t have Ga: "I ss d_in" "same_frame L La" by auto
    from pointwise_channel_step[OF contract shapes fanin pos c' Ga step[unfolded t t']]
    show "(case t' of (ss, L2) \<Rightarrow> I ss d_in \<and> same_frame L L2) \<and>
          (\<forall>p. (case t of (ss, L2) \<Rightarrow> valid_node_inputs L2 p) \<longrightarrow>
               (case t' of (ss, L2) \<Rightarrow> valid_node_inputs L2 p)) \<and>
          (\<forall>p\<in>{GetShapeIndex [x, y, c] [w, h, d_out]}.
               case t' of (ss, L2) \<Rightarrow> valid_node_inputs L2 p)"
      by (simp add: t t')
  qed
  then show ?thesis
    by simp
qed

lemma pointwise_connect_valid:
  assumes contract: "ShuffleSet_contract ops I"
    and fanin: "\<forall>node<GetShapeSize (GetOutputShape L). GetNodeInputSize L node \<le> GetInputShape L ! 2"
    and run: "pointwise_connect ops seed L = Inr L'"
  shows "valid_table L' \<and> same_frame L L'"
proof -
  from run have guards: "length (GetInputShape L) = 3" "length (GetOutputShape L) = 3"
    "GetInputShape L ! 0 = GetOutputShape L ! 0" "GetInputShape L ! 1 = GetOutputShape L ! 1"
    by (auto simp: pointwise_connect_def Let_def split: if_splits)
  define w h d_in d_out where "w = GetOutputShape L ! 0" and "h = GetOutputShape L ! 1"
    and "d_in = GetInputShape L ! 2" and "d_out = GetOutputShape L ! 2"
  have shapes: "GetInputShape L = [w, h, d_in]" "GetOutputShape L = [w, h, d_out]"
    using shape3[OF guards(1)] shape3[OF guards(2)] guards(3,4)
    by (simp_all add: w_def h_def d_in_def d_out_def)
  have fanin': "\<forall>node<GetShapeSize (GetOutputShape L). GetNodeInputSize L node \<le> d_in"
    using fanin by (simp add: d_in_def)
  from run guards obtain mt' where loop:
    "for_each [0..<h] (\<lambda>y. for_each [0..<w] (pointwise_column ops [w, h, d_in] [w, h, d_out] y))
       (mt_seed ops seed, L) = Inr (mt', L')"
    unfolding pointwise_connect_def Let_def shapes
    by (auto simp: bind_res_def split: sum.splits)
  have row: "(case t' of (mt, L1) \<Rightarrow> same_frame L L1) \<and>
        (\<forall>p. (case t of (mt, L1) \<Rightarrow> valid_node_inputs L1 p) \<longrightarrow>
             (case t' of (mt, L1) \<Rightarrow> valid_node_inputs L1 p)) \<and>
        (\<forall>x\<in>set [0..<w]. \<forall>p\<in>(\<lambda>c. GetShapeIndex [x, y, c] [w, h, d_out]) ` {..<d_out}.
             (case t' of (mt, L1) \<Rightarrow> valid_node_inputs L1 p))"
    if y: "y \<in> set [0..<h]" and Gt: "case t of (mt, L1) \<Rightarrow> same_frame L L1"
      and step: "for_each [0..<w] (pointwise_column ops [w, h, d_in] [w, h, d_out] y) t = Inr t'"
    for y t t'
  proof (rule for_each_rows[OF step, where G = "\<lambda>(mt, L1). same_frame L L1"
        and Q = "\<lambda>p (mt, L1). valid_node_inputs L1 p"
        and F = "\<lambda>x. (\<lambda>c. GetShapeIndex [x, y, c] [w, h, d_out]) ` {..<d_out}"])
    show "case t of (mt, L1) \<Rightarrow> same_frame L L1" by (rule Gt)
  next
    fix x u u'
    assume x: "x \<in> set [0..<w]" and Gu: "case u of (mt, L1) \<Rightarrow> same_frame L L1"
      and col: "pointwise_column ops [w, h, d_in] [w, h, d_out] y x u = Inr u'"
    obtain mt La where u: "u = (mt, La)" by (cases u)
    obtain mt1 Lb where u': "u' = (mt1, Lb)" by (cases u')
    from x y have pos: "x < w" "y < h" by simp_all
    from Gu u have Ga: "same_frame L La" by simp
    from pointwise_column_step[OF contract shapes fanin' pos Ga col[unfolded u u']]
    show "(case u' of (mt, L1) \<Rightarrow> same_frame L L1) \<and>
          (\<forall>p. (case u of (mt, L1) \<Rightarrow> valid_node_inputs L1 p) \<longrightarrow>
               (case u' of (mt, L1) \<Rightarrow> valid_node_inputs L1 p)) \<and>
          (\<forall>p\<in>(\<lambda>c. GetShapeIndex [x, y, c] [w, h, d_out]) ` {..<d_out}.
               case u' of (mt, L1) \<Rightarrow> valid_node_inputs L1 p)"
      by (auto simp: u u')
  qed
  have "(case (mt', L') of (mt, L1) \<Rightarrow> same_frame L L1) \<and>
        (\<forall>p. (case (mt_seed ops seed, L) of (mt, L1) \<Rightarrow> valid_node_inputs L1 p) \<longrightarrow>
             (case (mt', L') of (mt, L1) \<Rightarrow> valid_node_inputs L1 p)) \<and>
        (\<forall>y\<in>set [0..<h]. \<forall>p\<in>(\<Union>x<w. (\<lambda>c. GetShapeIndex [x, y, c] [w, h, d_out]) ` {..<d_out}).
             (case (mt', L') of (mt, L1) \<Rightarrow> valid_node_inputs L1 p))"
  proof (rule for_each_rows[OF loop, where G = "\<lambda>(mt, L1). same_frame L L1"
        and Q = "\<lambda>p (mt, L1). valid_node_inputs L1 p"
        and F = "\<lambda>y. (\<Union>x<w. (\<lambda>c. GetShapeIndex [x, y, c] [w, h, d_out]) ` {..<d_out})"])
    show "case (mt_seed ops seed, L) of (mt, L1) \<Rightarrow> same_frame L L1" by simp
  next
    fix y t t'
    assume "y \<in> set [0..<h]" "case t of (mt, L1) \<Rightarrow> same_frame L L1"
      "for_each [0..<w] (pointwise_column ops [w, h, d_in] [w, h, d_out] y) t = Inr t'"
    from row[OF this]
    show "(case t' of (mt, L1) \<Rightarrow> same_frame L L1) \<and>
          (\<forall>p. (case t of (mt, L1) \<Rightarrow> valid_node_inputs L1 p) \<longrightarrow>
               (case t' of (mt, L1) \<Rightarrow> valid_node_inputs L1 p)) \<and>
          (\<forall>p\<in>(\<Union>x<w. (\<lambda>c. GetShapeIndex [x, y, c] [w, h, d_out]) ` {..<d_out}).
               case t' of (mt, L1) \<Rightarrow> valid_node_inputs L1 p)"
      by auto
  qed
  then have frame: "same_frame L L'"
    and all: "\<And>x y c. x < w \<Longrightarrow> y < h \<Longrightarrow> c < d_out \<Longrightarrow>
                valid_node_inputs L' (GetShapeIndex [x, y, c] [w, h, d_out])"
    by auto
  have "valid_node_inputs L' node" if "node < GetShapeSize (GetOutputShape L')" for node
  proof -
    from that frame have "node < w * (h * d_out)"
      by (simp add: same_frame_def shapes)
    from index3_cover[OF this] obtain x y c where "x < w" "y < h" "c < d_out"
      "node = x + w * y + w * h * c"
      by blast
    with all[of x y c] show ?thesis
      by (simp add: GetShapeIndex3)
  qed
  with frame show ?thesis
    by (simp add: valid_table_def)
qed


lemma depthwise_input_Inr:
  assumes "depthwise_input [wi, hi, d] output_shape c y x r = Inr v"
  shows "v = r + wi * hi * c \<and> v < GetShapeSize [wi, hi, d]"
proof -
  from assms have "wi \<noteq> 0"
    by (auto simp: depthwise_input_def split: if_splits)
  with assms show ?thesis
    by (auto simp: depthwise_input_def Let_def GetShapeIndex3 split: if_splits)
qed

lemma depthwise_position_step:
  assumes contract: "ShuffleSet_contract ops I"
    and shapes: "GetInputShape L = [wi, hi, d]" "GetOutputShape L = [wo, ho, d]"
    and fanin: "\<forall>node<GetShapeSize (GetOutputShape L). GetNodeInputSize L node \<le> wi * hi"
    and pos: "x < wo" "y < ho" "c < d"
    and G: "I ss (wi * hi)" "same_frame L L2"
    and run: "depthwise_position ops [wi, hi, d] [wo, ho, d] c y x (ss, L2) = Inr (ss', L3)"
  shows "(I ss' (wi * hi) \<and> same_frame L L3) \<and>
         (\<forall>p. valid_node_inputs L2 p \<longrightarrow> valid_node_inputs L3 p) \<and>
         valid_node_inputs L3 (GetShapeIndex [x, y, c] [wo, ho, d])"
proof -
  let ?node = "GetShapeIndex [x, y, c] [wo, ho, d]"
  have node: "?node < GetShapeSize (GetOutputShape L)"
    using pos by (simp add: shapes GetShapeIndex3 index3_less)
  from G(2) have same: "GetNodeInputSize L2 = GetNodeInputSize L" "GetInputShape L2 = GetInputShape L"
    by (simp_all add: same_frame_def)
  from fanin node same have le: "GetNodeInputSize L2 ?node \<le> wi * hi"
    by simp
  obtain rs ss1 where draw: "ss_GetRandomSet ops ss (GetNodeInputSize L2 ?node) = (rs, ss1)"
    by (cases "ss_GetRandomSet ops ss (GetNodeInputSize L2 ?node)")
  from run draw have conn: "connect_inputs ?node (GetNodeInputSize L2 ?node)
      (depthwise_input [wi, hi, d] [wo, ho, d] c y x) rs L2 = Inr L3" and ss': "ss' = ss1"
    by (auto simp: depthwise_position_def Let_def bind_res_def split: sum.splits)
  have "I ss1 (wi * hi) \<and> same_frame L2 L3 \<and> valid_node_inputs L3 ?node \<and>
         (\<forall>p. p \<noteq> ?node \<longrightarrow> m_node_input L3 p = m_node_input L2 p)"
  proof (rule draw_and_connect[OF contract G(1) le draw conn])
    fix r v assume "depthwise_input [wi, hi, d] [wo, ho, d] c y x r = Inr v"
    from depthwise_input_Inr[OF this] show "v < GetShapeSize (GetInputShape L2)"
      by (simp add: same shapes)
  next
    fix r r' v
    assume "depthwise_input [wi, hi, d] [wo, ho, d] c y x r = Inr v"
      "depthwise_input [wi, hi, d] [wo, ho, d] c y x r' = Inr v"
    from depthwise_input_Inr[OF this(1)] depthwise_input_Inr[OF this(2)] show "r = r'"
      by simp
  qed
  then have 1: "I ss1 (wi * hi)" "same_frame L2 L3" "valid_node_inputs L3 ?node"
    and others: "\<forall>p. p \<noteq> ?node \<longrightarrow> m_node_input L3 p = m_node_input L2 p"
    by auto
  have "valid_node_inputs L3 p" if "valid_node_inputs L2 p" for p
  proof (cases "p = ?node")
    case True
    with 1 show ?thesis by simp
  next
    case False
    with others have "m_node_input L3 p = m_node_input L2 p" by simp
    from valid_node_inputs_unchanged[OF 1(2) this] that show ?thesis by simp
  qed
  with 1 G(2) ss' show ?thesis
    by (auto intro: same_frame_trans)
qed

lemma depthwise_row_step:
  assumes contract: "ShuffleSet_contract ops I"
    and shapes: "GetInputShape L = [wi, hi, d]" "GetOutputShape L = [wo, ho, d]"
    and fanin: "\<forall>node<GetShapeSize (GetOutputShape L). GetNodeInputSize L node \<le> wi * hi"
    and pos: "y < ho" "c < d"
    and G: "case t of (ss, L2) \<Rightarrow> I ss (wi * hi) \<and> same_frame L L2"
    and run: "for_each [0..<wo] (depthwise_position ops [wi, hi, d] [wo, ho, d] c y) t = Inr t'"
  shows "(case t' of (ss, L2) \<Rightarrow> I ss (wi * hi) \<and> same_frame L L2) \<and>
         (\<forall>p. (case t of (ss, L2) \<Rightarrow> valid_node_inputs L2 p) \<longrightarrow>
              (case t' of (ss, L2) \<Rightarrow> valid_node_inputs L2 p)) \<and>
         (\<forall>x\<in>set [0..<wo]. \<forall>p\<in>{GetShapeIndex [x, y, c] [wo, ho, d]}.
              (case t' of (ss, L2) \<Rightarrow> valid_node_inputs L2 p))"
proof (rule for_each_rows[OF run, where G = "\<lambda>(ss, L2). I ss (wi * hi) \<and> same_frame L L2"
      and Q = "\<lambda>p (ss, L2). valid_node_inputs L2 p"
      and F = "\<lambda>x. {GetShapeIndex [x, y, c] [wo, ho, d]}"])
  show "case t of (ss, L2) \<Rightarrow> I ss (wi * hi) \<and> same_frame L L2" by (rule G)
next
  fix x u u'
  assume x: "x \<in> set [0..<wo]"
    and Gu: "case u of (ss, L2) \<Rightarrow> I ss (wi * hi) \<and> same_frame L L2"
    and step: "depthwise_position ops [wi, hi, d] [wo, ho, d] c y x u = Inr u'"
  obtain ss La where u: "u = (ss, La)" by (cases u)
  obtain ss1 Lb where u': "u' = (ss1, Lb)" by (cases u')
  from x have x': "x < wo" by simp
  from Gu u have Ga: "I ss (wi * hi)" "same_frame L La" by auto
  from depthwise_position_step[OF contract shapes fanin x' pos Ga step[unfolded u u']]
  show "(case u' of (ss, L2) \<Rightarrow> I ss (wi * hi) \<and> same_frame L L2) \<and>
        (\<forall>p. (case u of (ss, L2) \<Rightarrow> valid_node_inputs L2 p) \<longrightarrow>
             (case u' of (ss, L2) \<Rightarrow> valid_node_inputs L2 p)) \<and>
        (\<forall>p\<in>{GetShapeIndex [x, y, c] [wo, ho, d]}.
             case u' of (ss, L2) \<Rightarrow> valid_node_inputs L2 p)"
    by (simp add: u u')
qed

lemma depthwise_channel_step:
  assumes contract: "ShuffleSet_contract ops I"
    and shapes: "GetInputShape L = [wi, hi, d]" "GetOutputShape L = [wo, ho, d]"
    and fanin: "\<forall>node<GetShapeSize (GetOutputShape L). GetNodeInputSize L node \<le> wi * hi"
    and pos: "c < d"
    and G: "same_frame L L1"
    and run: "depthwise_channel ops [wi, hi, d] [wo, ho, d] c (mt, L1) = Inr (mt', L2)"
  shows "same_frame L L2 \<and>
         (\<forall>p. valid_node_inputs L1 p \<longrightarrow> valid_node_inputs L2 p) \<and>
         (\<forall>y<ho. \<forall>x<wo. valid_node_inputs L2 (GetShapeIndex [x, y, c] [wo, ho, d]))"
proof -
  obtain r mt1 where nxt: "mt_next ops mt = (r, mt1)"
    by (cases "mt_next ops mt")
  from run nxt obtain ss' where loop:
    "for_each [0..<ho] (\<lambda>y. for_each [0..<wo] (depthwise_position ops [wi, hi, d] [wo, ho, d] c y))
       (ss_new ops (wi * hi) r, L1) = Inr (ss', L2)"
    by (auto simp: depthwise_channel_def Let_def bind_res_def split: sum.splits)
  have init: "I (ss_new ops (wi * hi) r) (wi * hi)"
    using contract by (simp add: ShuffleSet_contract_def)
  have "(case (ss', L2) of (ss, L2) \<Rightarrow> I ss (wi * hi) \<and> same_frame L L2) \<and>
        (\<forall>p. (case (ss_new ops (wi * hi) r, L1) of (ss, L2) \<Rightarrow> valid_node_inputs L2 p) \<longrightarrow>
             (case (ss', L2) of (ss, L2) \<Rightarrow> valid_node_inputs L2 p)) \<and>
        (\<forall>y\<in>set [0..<ho]. \<forall>p\<in>(\<lambda>x. GetShapeIndex [x, y, c] [wo, ho, d]) ` {..<wo}.
             (case (ss', L2) of (ss, L2) \<Rightarrow> valid_node_inputs L2 p))"
  proof (rule for_each_rows[OF loop, where G = "\<lambda>(ss, L2). I ss (wi * hi) \<and> same_frame L L2"
        and Q = "\<lambda>p (ss, L2). valid_node_inputs L2 p"
        and F = "\<lambda>y. (\<lambda>x. GetShapeIndex [x, y, c] [wo, ho, d]) ` {..<wo}"])
    show "case (ss_new ops (wi * hi) r, L1) of (ss, L2) \<Rightarrow> I ss (wi * hi) \<and> same_frame L L2"
      using init G by simp
  next
    fix y t t'
    assume y: "y \<in> set [0..<ho]"
      and Gt: "case t of (ss, L2) \<Rightarrow> I ss (wi * hi) \<and> same_frame L L2"
      and step: "for_each [0..<wo] (depthwise_position ops [wi, hi, d] [wo, ho, d] c y) t = Inr t'"
    from y have y': "y < ho" by simp
    from depthwise_row_step[OF contract shapes fanin y' pos Gt step]
    show "(case t' of (ss, L2) \<Rightarrow> I ss (wi * hi) \<and> same_frame L L2) \<and>
          (\<forall>p. (case t of (ss, L2) \<Rightarrow> valid_node_inputs L2 p) \<longrightarrow>
               (case t' of (ss, L2) \<Rightarrow> valid_node_inputs L2 p)) \<and>
          (\<forall>p\<in>(\<lambda>x. GetShapeIndex [x, y, c] [wo, ho, d]) ` {..<wo}.
               case t' of (ss, L2) \<Rightarrow> valid_node_inputs L2 p)"
      by auto
  qed
  then show ?thesis
    by auto
qed

lemma depthwise_connect_valid:
  assumes contract: "ShuffleSet_contract ops I"
    and fanin: "\<forall>node<GetShapeSize (GetOutputShape L).
                  GetNodeInputSize L node \<le> GetInputShape L ! 0 * GetInputShape L ! 1"
    and run: "depthwise_connect ops seed L = Inr L'"
  shows "valid_table L' \<and> same_frame L L'"
proof -
  from run have guards: "length (GetInputShape L) = 3" "length (GetOutputShape L) = 3"
    "GetInputShape L ! 2 = GetOutputShape L ! 2"
    by (auto simp: depthwise_connect_def Let_def split: if_splits)
  define wi hi wo ho d where "wi = GetInputShape L ! 0" and "hi = GetInputShape L ! 1"
    and "wo = GetOutputShape L ! 0" and "ho = GetOutputShape L ! 1" and "d = GetOutputShape L ! 2"
  have shapes: "GetInputShape L = [wi, hi, d]" "GetOutputShape L = [wo, ho, d]"
    using shape3[OF guards(1)] shape3[OF guards(2)] guards(3)
    by (simp_all add: wi_def hi_def wo_def ho_def d_def)
  have fanin': "\<forall>node<GetShapeSize (GetOutputShape L). GetNodeInputSize L node \<le> wi * hi"
    using fanin by (simp add: wi_def hi_def)
  from run guards obtain mt' where loop:
    "for_each [0..<d] (depthwise_channel ops [wi, hi, d] [wo, ho, d]) (mt_seed ops seed, L) =
       Inr (mt', L')"
    unfolding depthwise_connect_def Let_def shapes
    by (auto simp: bind_res_def split: sum.splits)
  have "(case (mt', L') of (mt, L1) \<Rightarrow> same_frame L L1) \<and>
        (\<forall>p. (case (mt_seed ops seed, L) of (mt, L1) \<Rightarrow> valid_node_inputs L1 p) \<longrightarrow>
             (case (mt', L') of (mt, L1) \<Rightarrow> valid_node_inputs L1 p)) \<and>
        (\<forall>c\<in>set [0..<d]. \<forall>p\<in>(\<Union>y<ho. (\<lambda>x. GetShapeIndex [x, y, c] [wo, ho, d]) ` {..<wo}).
             (case (mt', L') of (mt, L1) \<Rightarrow> valid_node_inputs L1 p))"
  proof (rule for_each_rows[OF loop, where G = "\<lambda>(mt, L1). same_frame L L1"
        and Q = "\<lambda>p (mt, L1). valid_node_inputs L1 p"
        and F = "\<lambda>c. (\<Union>y<ho. (\<lambda>x. GetShapeIndex [x, y, c] [wo, ho, d]) ` {..<wo})"])
    show "case (mt_seed ops seed, L) of (mt, L1) \<Rightarrow> same_frame L L1" by simp
  next
    fix c t t'
    assume c: "c \<in> set [0..<d]" and Gt: "case t of (mt, L1) \<Rightarrow> same_frame L L1"
      and step: "depthwise_channel ops [wi, hi, d] [wo, ho, d] c t = Inr t'"
    obtain mt La where t: "t = (mt, La)" by (cases t)
    obtain mt1 Lb where t': "t' = (mt1, Lb)" by (cases t')
    from c have c': "c < d" by simp
    from Gt t have Ga: "same_frame L La" by simp
    from depthwise_channel_step[OF contract shapes fanin' c' Ga step[unfolded t t']]
    show "(case t' of (mt, L1) \<Rightarrow> same_frame L L1) \<and>
          (\<forall>p. (case t of (mt, L1) \<Rightarrow> valid_node_inputs L1 p) \<longrightarrow>
               (case t' of (mt, L1) \<Rightarrow> valid_node_inputs L1 p)) \<and>
          (\<forall>p\<in>(\<Union>y<ho. (\<lambda>x. GetShapeIndex [x, y, c] [wo, ho, d]) ` {..<wo}).
               case t' of (mt, L1) \<Rightarrow> valid_node_inputs L1 p)"
      by (auto simp: t t')
  qed
  then have frame: "same_frame L L'"
    and all: "\<And>x y c. x < wo \<Longrightarrow> y < ho \<Longrightarrow> c < d \<Longrightarrow>
                valid_node_inputs L' (GetShapeIndex [x, y, c] [wo, ho, d])"
    by auto
  have "valid_node_inputs L' node" if "node < GetShapeSize (GetOutputShape L')" for node
  proof -
    from that frame have "node < wo * (ho * d)"
      by (simp add: same_frame_def shapes)
    from index3_cover[OF this] obtain x y c where "x < wo" "y < ho" "c < d"
      "node = x + wo * y + wo * ho * c"
      by blast
    with all[of x y c] show ?thesis
      by (simp add: GetShapeIndex3)
  qed
  with frame show ?thesis
    by (simp add: valid_table_def)
qed

lemma bind_res_Inr_right [simp]: "bind_res r Inr = r"
  by (cases r) simp_all

lemma bind_res_eq_Inr: "bind_res r f = Inr v \<longleftrightarrow> (\<exists>u. r = Inr u \<and> f u = Inr v)"
  by (cases r) simp_all

lemma connect_inputs_Inr:
  "connect_inputs node m Inr random_set L =
     for_each [0..<m] (\<lambda>i L2.
       bind_res (at_index random_set i) (\<lambda>input_node. Inr (SetNodeInput L2 node i input_node))) L"
  by (simp add: connect_inputs_def)

lemma random_connect_valid:
  assumes contract: "ShuffleSet_contract ops I"
    and fanin: "\<forall>node<GetShapeSize (GetOutputShape L).
                  GetNodeInputSize L node \<le> GetShapeSize (GetInputShape L)"
    and run: "random_connect ops seed L = Inr L'"
  shows "valid_table L' \<and> same_frame L L'"
proof -
  let ?isz = "GetShapeSize (GetInputShape L)"
  let ?body = "\<lambda>node (ss, L1).
              let input_size = GetNodeInputSize L1 node;
                  (random_set, ss') = ss_GetRandomSet ops ss input_size
              in bind_res
                   (for_each [0..<input_size] (\<lambda>i L2.
                      bind_res (at_index random_set i) (\<lambda>input_node.
                        Inr (SetNodeInput L2 node i input_node)))
                      L1)
                   (\<lambda>L2. Inr (ss', L2))"
  from run obtain ss' where loop:
    "for_each [0..<GetShapeSize (GetOutputShape L)] ?body (ss_new ops ?isz seed, L) = Inr (ss', L')"
    by (auto simp: random_connect_def Let_def bind_res_def split: sum.splits)
  have init: "I (ss_new ops ?isz seed) ?isz"
    using contract by (simp add: ShuffleSet_contract_def)
  have "(case (ss', L') of (ss, L1) \<Rightarrow> I ss ?isz \<and> same_frame L L1) \<and>
        (\<forall>p. (case (ss_new ops ?isz seed, L) of (ss, L1) \<Rightarrow> valid_node_inputs L1 p) \<longrightarrow>
             (case (ss', L') of (ss, L1) \<Rightarrow> valid_node_inputs L1 p)) \<and>
        (\<forall>node\<in>set [0..<GetShapeSize (GetOutputShape L)]. \<forall>p\<in>{node}.
             (case (ss', L') of (ss, L1) \<Rightarrow> valid_node_inputs L1 p))"
  proof (rule for_each_rows[OF loop, where G = "\<lambda>(ss, L1). I ss ?isz \<and> same_frame L L1"
        and Q = "\<lambda>p (ss, L1). valid_node_inputs L1 p" and F = "\<lambda>node. {node}"])
    show "case (ss_new ops ?isz seed, L) of (ss, L1) \<Rightarrow> I ss ?isz \<and> same_frame L L1"
      using init by simp
  next
    fix node t t'
    assume node: "node \<in> set [0..<GetShapeSize (GetOutputShape L)]"
      and Gt: "case t of (ss, L1) \<Rightarrow> I ss ?isz \<and> same_frame L L1"
      and step: "?body node t = Inr t'"
    obtain ss La where t: "t = (ss, La)" by (cases t)
    obtain ss1 Lb where t': "t' = (ss1, Lb)" by (cases t')
    from Gt t have Ga: "I ss ?isz" "same_frame L La" by auto
    then have same: "GetNodeInputSize La = GetNodeInputSize L" "GetInputShape La = GetInputShape L"
      by (simp_all add: same_frame_def)
    from fanin node same have le: "GetNodeInputSize La node \<le> ?isz"
      by simp
    obtain rs ss2 where draw: "ss_GetRandomSet ops ss (GetNodeInputSize La node) = (rs, ss2)"
      by (cases "ss_GetRandomSet ops ss (GetNodeInputSize La node)")
    from step draw have conn: "connect_inputs node (GetNodeInputSize La node) Inr rs La = Inr Lb"
      and ss1: "ss1 = ss2"
      by (auto simp: t t' Let_def connect_inputs_Inr bind_res_eq_Inr)
    have "I ss2 ?isz \<and> same_frame La Lb \<and> valid_node_inputs Lb node \<and>
         (\<forall>p. p \<noteq> node \<longrightarrow> m_node_input Lb p = m_node_input La p)"
      by (rule draw_and_connect[OF contract Ga(1) le draw conn]) (auto simp: same)
    then have 1: "I ss2 ?isz" "same_frame La Lb" "valid_node_inputs Lb node"
      and others: "\<forall>p. p \<noteq> node \<longrightarrow> m_node_input Lb p = m_node_input La p"
      by auto
    have "valid_node_inputs Lb p" if "valid_node_inputs La p" for p
    proof (cases "p = node")
      case True
      with 1 show ?thesis by simp
    next
      case False
      with others have "m_node_input Lb p = m_node_input La p" by simp
      from valid_node_inputs_unchanged[OF 1(2) this] that show ?thesis by simp
    qed
    with 1 Ga(2) ss1
    show "(case t' of (ss, L1) \<Rightarrow> I ss ?isz \<and> same_frame L L1) \<and>
          (\<forall>p. (case t of (ss, L1) \<Rightarrow> valid_node_inputs L1 p) \<longrightarrow>
               (case t' of (ss, L1) \<Rightarrow> valid_node_inputs L1 p)) \<and>
          (\<forall>p\<in>{node}. case t' of (ss, L1) \<Rightarrow> valid_node_inputs L1 p)"
      by (auto simp: t t' intro: same_frame_trans)
  qed
  then have frame: "same_frame L L'"
    and all: "\<And>node. node < GetShapeSize (GetOutputShape L) \<Longrightarrow> valid_node_inputs L' node"
    by auto
  then show ?thesis
    by (simp add: valid_table_def same_frame_def)
qed

lemma add_mod_inj_le:
  assumes "(a + i) mod n = (a + j) mod n" "i \<le> j" "j < (n::nat)"
  shows "i = j"
proof -
  have "n dvd (a + j) - (a + i)"
    using assms(1,2) by (subst mod_eq_dvd_iff_nat[symmetric]) simp_all
  then have "n dvd j - i"
    by simp
  moreover have "j - i < n"
    using assms(3) by simp
  ultimately have "j - i = 0"
    by (meson dvd_imp_le less_le_not_le not_gr_zero)
  with assms(2) show ?thesis
    by simp
qed

lemma add_mod_inj:
  assumes "(a + i) mod n = (a + j) mod n" "i < n" "j < (n::nat)"
  shows "i = j"
proof (cases "i \<le> j")
  case True
  from add_mod_inj_le[OF assms(1) True assms(3)] show ?thesis .
next
  case False
  then have "j \<le> i" by simp
  from add_mod_inj_le[OF assms(1)[symmetric] this assms(2)] show ?thesis by simp
qed

lemma for_each_skip:
  assumes "\<And>x. x \<in> set xs \<Longrightarrow> body x s = Inr s"
  shows "for_each xs body s = Inr s"
  using assms by (induction xs) simp_all

lemma serial_connect_valid:
  assumes fanin: "\<forall>node<GetShapeSize (GetOutputShape L).
                  GetNodeInputSize L node \<le> GetShapeSize (GetInputShape L)"
    and run: "serial_connect L = Inr L'"
  shows "valid_table L' \<and> same_frame L L'"
proof (cases "0 < GetShapeSize (GetInputShape L)")
  case True
  let ?isz = "GetShapeSize (GetInputShape L)"
  from run serial_connect_closed[OF True]
  have L': "L' = L\<lparr>m_node_input := (\<lambda>n i.
            if n < GetShapeSize (GetOutputShape L) \<and> i < GetNodeInputSize L n
            then (serial_offset L n + i) mod ?isz else m_node_input L n i)\<rparr>"
    by simp
  have frame: "same_frame L L'"
    by (subst L') simp
  have "valid_node_inputs L' node" if node: "node < GetShapeSize (GetOutputShape L)" for node
  proof -
    have row: "node_inputs L' node =
        map (\<lambda>i. (serial_offset L node + i) mod ?isz) [0..<GetNodeInputSize L node]"
      using node frame by (subst L') (simp add: node_inputs_def GetNodeInput_def same_frame_def)
    have le: "GetNodeInputSize L node \<le> ?isz"
      using fanin node by simp
    have "inj_on (\<lambda>i. (serial_offset L node + i) mod ?isz) (set [0..<GetNodeInputSize L node])"
      by (rule inj_onI) (use le in \<open>auto dest!: add_mod_inj\<close>)
    then have "distinct (node_inputs L' node)"
      by (simp add: row distinct_map)
    moreover have "\<forall>v\<in>set (node_inputs L' node). v < GetShapeSize (GetInputShape L')"
      using True frame by (auto simp: row same_frame_def)
    ultimately show ?thesis
      by (simp add: valid_node_inputs_def node_inputs_def)
  qed
  with frame show ?thesis
    by (simp add: valid_table_def same_frame_def)
next
  case False
  then have zero: "GetShapeSize (GetInputShape L) = 0" by simp
  with fanin have none: "\<forall>node<GetShapeSize (GetOutputShape L). GetNodeInputSize L node = 0"
    by simp
  have "for_each [0..<GetShapeSize (GetOutputShape L)] (\<lambda>output_node (input_node, L1).
              let m = GetNodeInputSize L1 output_node
              in for_each [0..<m] (\<lambda>i (input_node, L2).
                   if GetShapeSize (GetInputShape L) = 0 then Inl DivByZero
                   else Inr (input_node + 1,
                             SetNodeInput L2 output_node i (input_node mod GetShapeSize (GetInputShape L))))
                   (input_node, L1))
              (0, L) = Inr (0, L)"
    by (rule for_each_skip) (use none in simp)
  with run have "L' = L"
    by (simp add: serial_connect_def Let_def)
  moreover have "valid_table L"
    using none by (simp add: valid_table_def valid_node_inputs_def node_inputs_def)
  ultimately show ?thesis
    by simp
qed

lemma gauss_retry_Some:
  assumes "gauss_retry fuel ops input_shape output_shape output_index s mt = Some (v, mt')"
  shows "v \<notin> s \<and> (\<exists>mt0. v = fst (gauss_sample ops mt0 input_shape output_shape output_index))"
  using assms
proof (induction fuel arbitrary: mt)
  case 0
  then show ?case by simp
next
  case (Suc fuel)
  obtain u mt1 where g: "gauss_sample ops mt input_shape output_shape output_index = (u, mt1)"
    by (cases "gauss_sample ops mt input_shape output_shape output_index")
  show ?case
  proof (cases "u \<in> s")
    case True
    with Suc.prems g have "gauss_retry fuel ops input_shape output_shape output_index s mt1 = Some (v, mt')"
      by simp
    then show ?thesis by (rule Suc.IH)
  next
    case False
    with Suc.prems g have "v = u" by simp
    with False g show ?thesis
      by (metis fst_conv)
  qed
qed

lemma same_frame_SetNodeInput [simp]: "same_frame L (SetNodeInput L node i v)"
  by (simp add: SetNodeInput_def)

lemma gauss_inputs_result:
  assumes "gauss_inputs fuel ops output_index node slots (s, mt, L) = Some (s', mt', L')"
    and "distinct slots"
    and "\<forall>mt0. fst (gauss_sample ops mt0 (GetInputShape L) (GetOutputShape L) output_index)
            < GetShapeSize (GetInputShape L)"
  shows "same_frame L L' \<and>
     (\<forall>p. p \<noteq> node \<longrightarrow> m_node_input L' p = m_node_input L p) \<and>
     (\<forall>i. i \<notin> set slots \<longrightarrow> m_node_input L' node i = m_node_input L node i) \<and>
     (\<forall>i\<in>set slots. m_node_input L' node i \<notin> s \<and>
                     m_node_input L' node i < GetShapeSize (GetInputShape L)) \<and>
     s' = s \<union> m_node_input L' node ` set slots \<and>
     inj_on (m_node_input L' node) (set slots)"
  using assms
proof (induction slots arbitrary: s mt L)
  case Nil
  then show ?case by simp
next
  case (Cons i rest)
  from Cons.prems(1) obtain v mt1 where
    retry: "gauss_retry fuel ops (GetInputShape L) (GetOutputShape L) output_index s mt = Some (v, mt1)"
    and rest: "gauss_inputs fuel ops output_index node rest
                 (insert v s, mt1, SetNodeInput L node i v) = Some (s', mt', L')"
    by (auto split: option.splits)
  let ?L1 = "SetNodeInput L node i v"
  from gauss_retry_Some[OF retry] Cons.prems(3)
  have v: "v \<notin> s" "v < GetShapeSize (GetInputShape L)"
    by auto
  have f1: "same_frame L ?L1" by simp
  then have shapes: "GetInputShape ?L1 = GetInputShape L" "GetOutputShape ?L1 = GetOutputShape L"
    by (simp_all add: same_frame_def)
  from Cons.prems(2) have d: "distinct rest" "i \<notin> set rest" by simp_all
  have range1: "\<forall>mt0. fst (gauss_sample ops mt0 (GetInputShape ?L1) (GetOutputShape ?L1) output_index)
            < GetShapeSize (GetInputShape ?L1)"
    using Cons.prems(3) by (simp add: shapes)
  from Cons.IH[OF rest d(1) range1]
  have IH: "same_frame ?L1 L'"
    "\<forall>p. p \<noteq> node \<longrightarrow> m_node_input L' p = m_node_input ?L1 p"
    "\<forall>j. j \<notin> set rest \<longrightarrow> m_node_input L' node j = m_node_input ?L1 node j"
    "\<forall>j\<in>set rest. m_node_input L' node j \<notin> insert v s \<and>
                     m_node_input L' node j < GetShapeSize (GetInputShape ?L1)"
    "s' = insert v s \<union> m_node_input L' node ` set rest"
    "inj_on (m_node_input L' node) (set rest)"
    by auto
  have at_i: "m_node_input L' node i = v"
    using IH(3) d(2) by (simp add: SetNodeInput_def)
  have "same_frame L L'"
    using f1 IH(1) by (rule same_frame_trans)
  moreover have "\<forall>p. p \<noteq> node \<longrightarrow> m_node_input L' p = m_node_input L p"
    using IH(2) by (simp add: SetNodeInput_def)
  moreover have "\<forall>j. j \<notin> set (i # rest) \<longrightarrow> m_node_input L' node j = m_node_input L node j"
    using IH(3) by (simp add: SetNodeInput_def)
  moreover have "\<forall>j\<in>set (i # rest). m_node_input L' node j \<notin> s \<and>
                     m_node_input L' node j < GetShapeSize (GetInputShape L)"
    using IH(4) at_i v by (auto simp: shapes)
  moreover have "s' = s \<union> m_node_input L' node ` set (i # rest)"
    using IH(5) at_i by auto
  moreover have "inj_on (m_node_input L' node) (set (i # rest))"
    using IH(4,6) at_i d(2) by (auto simp: inj_on_def)
  ultimately show ?case
    by blast
qed

lemma gauss_inputs_valid:
  assumes run: "gauss_inputs fuel ops output_index node [0..<GetNodeInputSize L node] ({}, mt, L) =
               Some (s', mt', L')"
    and range: "\<forall>mt0. fst (gauss_sample ops mt0 (GetInputShape L) (GetOutputShape L) output_index)
            < GetShapeSize (GetInputShape L)"
  shows "same_frame L L' \<and> valid_node_inputs L' node \<and>
         (\<forall>p. valid_node_inputs L p \<longrightarrow> valid_node_inputs L' p)"
proof -
  from gauss_inputs_result[OF run _ range]
  have frame: "same_frame L L'"
    and others: "\<forall>p. p \<noteq> node \<longrightarrow> m_node_input L' p = m_node_input L p"
    and inr: "\<forall>i\<in>set [0..<GetNodeInputSize L node].
                m_node_input L' node i < GetShapeSize (GetInputShape L)"
    and inj: "inj_on (m_node_input L' node) (set [0..<GetNodeInputSize L node])"
    by auto
  from frame have same: "GetNodeInputSize L' = GetNodeInputSize L" "GetInputShape L' = GetInputShape L"
    by (simp_all add: same_frame_def)
  have row: "node_inputs L' node = map (m_node_input L' node) [0..<GetNodeInputSize L node]"
    by (simp add: node_inputs_def same GetNodeInput_def fun_eq_iff cong: map_cong)
  have valid: "valid_node_inputs L' node"
    unfolding valid_node_inputs_def row using inr inj
    by (auto simp: same distinct_map)
  have "valid_node_inputs L' p" if "valid_node_inputs L p" for p
  proof (cases "p = node")
    case True
    with valid show ?thesis by simp
  next
    case False
    with others have "m_node_input L' p = m_node_input L p" by simp
    from valid_node_inputs_unchanged[OF frame this] that show ?thesis by simp
  qed
  with frame valid show ?thesis
    by simp
qed

lemma gauss_nodes_valid:
  assumes "gauss_nodes rounds fuel ops output_index (mt, L) = Some (mt', L')"
    and "\<forall>mt0 idx. fst (gauss_sample ops mt0 (GetInputShape L) (GetOutputShape L) idx)
            < GetShapeSize (GetInputShape L)"
  shows "same_frame L L' \<and> (\<forall>p. valid_node_inputs L p \<longrightarrow> valid_node_inputs L' p) \<and>
         (\<forall>p\<in>set (gauss_visits rounds ops output_index (GetOutputShape L)). valid_node_inputs L' p)"
  using assms
proof (induction rounds arbitrary: output_index mt L)
  case 0
  then show ?case by simp
next
  case (Suc rounds)
  let ?node = "GetShapeIndex output_index (GetOutputShape L)"
  from Suc.prems(1) obtain s1 mt1 L1 where
    inputs: "gauss_inputs fuel ops output_index ?node [0..<GetNodeInputSize L ?node] ({}, mt, L) =
             Some (s1, mt1, L1)"
    by (auto simp: Let_def split: option.splits)
  from gauss_inputs_valid[OF inputs] Suc.prems(2)
  have 1: "same_frame L L1" "valid_node_inputs L1 ?node"
    "\<forall>p. valid_node_inputs L p \<longrightarrow> valid_node_inputs L1 p"
    by auto
  then have shapes: "GetInputShape L1 = GetInputShape L" "GetOutputShape L1 = GetOutputShape L"
    by (simp_all add: same_frame_def)
  obtain more idx' where nxt: "GetNextIndices ops output_index (GetOutputShape L) = (more, idx')"
    by (cases "GetNextIndices ops output_index (GetOutputShape L)")
  show ?case
  proof (cases more)
    case False
    with Suc.prems(1) inputs nxt have "L' = L1"
      by (simp add: Let_def shapes)
    with 1 False nxt show ?thesis
      by simp
  next
    case True
    with Suc.prems(1) inputs nxt
    have rest: "gauss_nodes rounds fuel ops idx' (mt1, L1) = Some (mt', L')"
      by (simp add: Let_def shapes)
    have range1: "\<forall>mt0 idx. fst (gauss_sample ops mt0 (GetInputShape L1) (GetOutputShape L1) idx)
            < GetShapeSize (GetInputShape L1)"
      using Suc.prems(2) by (simp add: shapes)
    from Suc.IH[OF rest range1]
    have 2: "same_frame L1 L'" "\<forall>p. valid_node_inputs L1 p \<longrightarrow> valid_node_inputs L' p"
      "\<forall>p\<in>set (gauss_visits rounds ops idx' (GetOutputShape L)). valid_node_inputs L' p"
      by (simp_all add: shapes)
    from 1 2 True nxt show ?thesis
      by (auto intro: same_frame_trans)
  qed
qed

lemma gauss_connect_valid:
  assumes run: "gauss_connect fuel ops seed L = Some L'"
    and range: "\<forall>mt0 idx. fst (gauss_sample ops mt0 (GetInputShape L) (GetOutputShape L) idx)
            < GetShapeSize (GetInputShape L)"
    and cover: "\<forall>node<GetShapeSize (GetOutputShape L).
        node \<in> set (gauss_visits fuel ops (replicate (length (GetInputShape L)) 0) (GetOutputShape L))"
  shows "valid_table L' \<and> same_frame L L'"
proof -
  from run obtain mt' where
    "gauss_nodes fuel fuel ops (replicate (length (GetInputShape L)) 0) (mt_seed ops seed, L) =
       Some (mt', L')"
    by (auto simp: gauss_connect_def Let_def)
  from gauss_nodes_valid[OF this range] cover show ?thesis
    by (auto simp: valid_table_def same_frame_def)
qed

lemma example_ShuffleSet_contract:
  "ShuffleSet_contract example_random_ops
     (\<lambda>ss sz. distinct ss \<and> length ss = sz \<and> (\<forall>v\<in>set ss. v < sz))"
  by (auto simp: ShuffleSet_contract_def example_random_ops_def dest: in_set_takeD)

text \<open>
  Claim C1, as stated, at a concrete input: the serial strategy with fan-in 2 on one
  input node and one output node. InitializeNodeInput returns, and the row of output
  node 0 is [0, 0]: the same input twice.
\<close>

theorem serial_repeats_an_input_counterexample:
  "\<exists>L'. InitializeNodeInput 0 example_random_ops 1 ''serial'' (example_SparseLayer [1] [1] 2 7) =
          Some (Inr L') \<and>
        node_inputs L' 0 = [0, 0] \<and> \<not> valid_table L'"
proof -
  let ?L = "example_SparseLayer [1] [1] 2 7"
  have pos: "0 < GetShapeSize (GetInputShape ?L)"
    by (simp add: example_SparseLayer_def GetInputShape_def)
  have two: "[0..<2] = [0, 1]"
    by (simp add: upt_rec)
  obtain L' where L': "serial_connect ?L = Inr L'"
    using serial_connect_closed[OF pos] by simp
  then have row: "node_inputs L' 0 = [0, 0]"
    unfolding serial_connect_closed[OF pos]
    by (auto simp: node_inputs_def GetNodeInput_def GetNodeInputSize_def GetOutputShape_def
        GetInputShape_def serial_offset_def example_SparseLayer_def two)
  have "GetOutputShape L' = [1]"
    using L' unfolding serial_connect_closed[OF pos]
    by (auto simp: GetOutputShape_def example_SparseLayer_def)
  with row have "\<not> valid_table L'"
    by (simp add: valid_table_def valid_node_inputs_def)
  with L' row show ?thesis
    by (simp add: InitializeNodeInput_serial)
qed

text \<open>
  Claim C1, amended. When InitializeNodeInput returns normally, the shapes and fan-ins
  are as before and every output node has as many entries as its fan-in, all of them
  input node indices and no two equal, provided that
  \<^item> for pointwise, depthwise, serial and random: no fan-in exceeds the number of
    indices that the strategy draws a row from (the input channels, the positions of
    one input channel, the input nodes), and \<^verbatim>\<open>ShuffleSet\<close> returns \<open>n\<close> different
    indices of its range whenever \<open>n\<close> does not exceed that range;
  \<^item> for gauss: every sampled index is regularized into the input shape, and the
    \<^verbatim>\<open>do ... while\<close> loop visits every output node.
\<close>

theorem connection_table_valid_when_fan_in_fits:
  "(ShuffleSet_contract ops I \<and>
    \<not> (SplitString connection \<noteq> [] \<and> SplitString connection ! 0 = ''gauss'') \<and>
    (\<forall>node<GetShapeSize (GetOutputShape L).
       GetNodeInputSize L node \<le> strategy_population (SplitString connection) L) \<and>
    InitializeNodeInput fuel ops seed connection L = Some (Inr L') \<longrightarrow>
      valid_table L' \<and> same_frame L L') \<and>
   (SplitString connection \<noteq> [] \<and> SplitString connection ! 0 = ''gauss'' \<and>
    (\<forall>mt output_index.
       fst (gauss_sample ops mt (GetInputShape L) (GetOutputShape L) output_index)
         < GetShapeSize (GetInputShape L)) \<and>
    (\<forall>node<GetShapeSize (GetOutputShape L).
       node \<in> set (gauss_visits fuel ops (replicate (length (GetInputShape L)) 0)
                     (GetOutputShape L))) \<and>
    InitializeNodeInput fuel ops seed connection L = Some (Inr L') \<longrightarrow>
      valid_table L' \<and> same_frame L L')"
proof (rule conjI; rule impI)
  let ?argv = "SplitString connection"
  assume a: "ShuffleSet_contract ops I \<and>
    \<not> (?argv \<noteq> [] \<and> ?argv ! 0 = ''gauss'') \<and>
    (\<forall>node<GetShapeSize (GetOutputShape L).
       GetNodeInputSize L node \<le> strategy_population ?argv L) \<and>
    InitializeNodeInput fuel ops seed connection L = Some (Inr L')"
  then have contract: "ShuffleSet_contract ops I"
    and fanin: "\<forall>node<GetShapeSize (GetOutputShape L).
       GetNodeInputSize L node \<le> strategy_population ?argv L"
    and run: "InitializeNodeInput fuel ops seed connection L = Some (Inr L')"
    and ng: "\<not> (?argv \<noteq> [] \<and> ?argv ! 0 = ''gauss'')"
    by auto
  consider (pointwise) "?argv \<noteq> []" "?argv ! 0 = ''pointwise''"
    | (depthwise) "?argv \<noteq> []" "?argv ! 0 = ''depthwise''"
    | (serial) "?argv \<noteq> []" "?argv ! 0 = ''serial''"
    | (random) "?argv = [] \<or> ?argv ! 0 = ''random''"
    | (other) "?argv \<noteq> []" "?argv ! 0 \<notin> {''pointwise'', ''depthwise'', ''gauss'', ''serial'', ''random''}"
    using ng by auto
  then show "valid_table L' \<and> same_frame L L'"
  proof cases
    case pointwise
    with run have "pointwise_connect ops seed L = Inr L'"
      by (simp add: InitializeNodeInput_def)
    moreover from fanin pointwise have "\<forall>node<GetShapeSize (GetOutputShape L).
        GetNodeInputSize L node \<le> GetInputShape L ! 2"
      by (simp add: strategy_population_def)
    ultimately show ?thesis
      using pointwise_connect_valid[OF contract] by blast
  next
    case depthwise
    with run have "depthwise_connect ops seed L = Inr L'"
      by (simp add: InitializeNodeInput_def)
    moreover from fanin depthwise have "\<forall>node<GetShapeSize (GetOutputShape L).
        GetNodeInputSize L node \<le> GetInputShape L ! 0 * GetInputShape L ! 1"
      by (simp add: strategy_population_def)
    ultimately show ?thesis
      using depthwise_connect_valid[OF contract] by blast
  next
    case serial
    with run have "serial_connect L = Inr L'"
      by (simp add: InitializeNodeInput_def)
    moreover from fanin serial have "\<forall>node<GetShapeSize (GetOutputShape L).
        GetNodeInputSize L node \<le> GetShapeSize (GetInputShape L)"
      by (simp add: strategy_population_def)
    ultimately show ?thesis
      using serial_connect_valid by blast
  next
    case random
    with run have "random_connect ops seed L = Inr L'"
      by (auto simp: InitializeNodeInput_def)
    moreover from fanin random have "\<forall>node<GetShapeSize (GetOutputShape L).
        GetNodeInputSize L node \<le> GetShapeSize (GetInputShape L)"
      by (auto simp: strategy_population_def)
    ultimately show ?thesis
      using random_connect_valid[OF contract] by blast
  next
    case other
    with run show ?thesis
      by (simp add: InitializeNodeInput_def)
  qed
next
  let ?argv = "SplitString connection"
  assume a: "?argv \<noteq> [] \<and> ?argv ! 0 = ''gauss'' \<and>
    (\<forall>mt output_index.
       fst (gauss_sample ops mt (GetInputShape L) (GetOutputShape L) output_index)
         < GetShapeSize (GetInputShape L)) \<and>
    (\<forall>node<GetShapeSize (GetOutputShape L).
       node \<in> set (gauss_visits fuel ops (replicate (length (GetInputShape L)) 0)
                     (GetOutputShape L))) \<and>
    InitializeNodeInput fuel ops seed connection L = Some (Inr L')"
  then have "gauss_connect fuel ops seed L = Some L'"
    by (auto simp: InitializeNodeInput_def)
  from gauss_connect_valid[OF this] a show "valid_table L' \<and> same_frame L L'"
    by blast
qed

theorem connection_table_valid_when_fan_in_fits_witness:
  "(\<exists>L'. InitializeNodeInput 0 example_random_ops 2 ''pointwise''
            (example_SparseLayer [2, 2, 3] [2, 2, 2] 2 0) = Some (Inr L') \<and>
         connection_table L' =
           [[0, 4], [5, 9], [10, 2], [3, 7], [8, 0], [1, 5], [6, 10], [11, 3]] \<and>
         valid_table L') \<and>
   (\<exists>L'. InitializeNodeInput 20 example_random_ops 2 ''gauss''
            (example_SparseLayer [5] [3] 2 0) = Some (Inr L') \<and>
         connection_table L' = [[2, 3], [4, 0], [1, 2]] \<and>
         valid_table L')"
proof (intro conjI)
  let ?L = "example_SparseLayer [2, 2, 3] [2, 2, 2] 2 0"
  have "map_option (map_sum id connection_table)
          (InitializeNodeInput 0 example_random_ops 2 ''pointwise'' ?L) =
        Some (Inr [[0, 4], [5, 9], [10, 2], [3, 7], [8, 0], [1, 5], [6, 10], [11, 3]])"
    by code_simp
  then obtain L' where run: "InitializeNodeInput 0 example_random_ops 2 ''pointwise'' ?L = Some (Inr L')"
    and table: "connection_table L' = [[0, 4], [5, 9], [10, 2], [3, 7], [8, 0], [1, 5], [6, 10], [11, 3]]"
    by (cases "InitializeNodeInput 0 example_random_ops 2 ''pointwise'' ?L")
      (auto simp: map_sum_def split: sum.splits)
  have argv: "SplitString ''pointwise'' = [''pointwise'']"
    by (simp add: SplitString_def)
  have fanin: "\<forall>node<GetShapeSize (GetOutputShape ?L).
       GetNodeInputSize ?L node \<le> strategy_population (SplitString ''pointwise'') ?L"
    by (simp add: argv strategy_population_def example_SparseLayer_def GetInputShape_def
        GetNodeInputSize_def)
  from connection_table_valid_when_fan_in_fits[of example_random_ops
      "\<lambda>ss sz. distinct ss \<and> length ss = sz \<and> (\<forall>v\<in>set ss. v < sz)"
      "''pointwise''" ?L 0 2 L'] example_ShuffleSet_contract fanin run
  have "valid_table L'"
    by (simp add: argv)
  with run table show "\<exists>L'. InitializeNodeInput 0 example_random_ops 2 ''pointwise'' ?L = Some (Inr L') \<and>
         connection_table L' =
           [[0, 4], [5, 9], [10, 2], [3, 7], [8, 0], [1, 5], [6, 10], [11, 3]] \<and>
         valid_table L'"
    by blast
next
  let ?L = "example_SparseLayer [5] [3] 2 0"
  have "map_option (map_sum id connection_table)
          (InitializeNodeInput 20 example_random_ops 2 ''gauss'' ?L) =
        Some (Inr [[2, 3], [4, 0], [1, 2]])"
    by code_simp
  then obtain L' where run: "InitializeNodeInput 20 example_random_ops 2 ''gauss'' ?L = Some (Inr L')"
    and table: "connection_table L' = [[2, 3], [4, 0], [1, 2]]"
    by (cases "InitializeNodeInput 20 example_random_ops 2 ''gauss'' ?L")
      (auto simp: map_sum_def split: sum.splits)
  have argv: "SplitString ''gauss'' = [''gauss'']"
    by (simp add: SplitString_def)
  have range: "\<forall>mt output_index.
       fst (gauss_sample example_random_ops mt (GetInputShape ?L) (GetOutputShape ?L) output_index)
         < GetShapeSize (GetInputShape ?L)"
    by (simp add: example_random_ops_def example_SparseLayer_def GetInputShape_def)
  have visits: "gauss_visits 20 example_random_ops (replicate (length (GetInputShape ?L)) 0)
                  (GetOutputShape ?L) = [0, 1, 2]"
    by code_simp
  have cover: "\<forall>node<GetShapeSize (GetOutputShape ?L).
       node \<in> set (gauss_visits 20 example_random_ops (replicate (length (GetInputShape ?L)) 0)
                     (GetOutputShape ?L))"
    unfolding visits by (auto simp: example_SparseLayer_def GetOutputShape_def)
  from connection_table_valid_when_fan_in_fits[of example_random_ops _ "''gauss''" ?L 20 2 L']
    range cover run
  have "valid_table L'"
    by (simp add: argv)
  with run table show "\<exists>L'. InitializeNodeInput 20 example_random_ops 2 ''gauss'' ?L = Some (Inr L') \<and>
         connection_table L' = [[2, 3], [4, 0], [1, 2]] \<and> valid_table L'"
    by blast
qed

end
